theory Spec2Isabelle
  imports Main "HOL-Library.AList"
begin

section \<open>Strings and paths\<close>

text \<open>
  Python strings are modelled as \<open>string\<close>. \<open>split_on P s\<close> is \<^verbatim>\<open>s.split(',')\<close> and
  \<^verbatim>\<open>re.split('[,;]', s)\<close>: the string is cut at every character satisfying \<open>P\<close>, empty
  pieces are kept, and the empty string gives one empty piece.
\<close>

fun split_on :: "(char \<Rightarrow> bool) \<Rightarrow> string \<Rightarrow> string list" where
  "split_on P [] = [[]]"
| "split_on P (c # cs) =
     (if P c then [] # split_on P cs
      else (case split_on P cs of [] \<Rightarrow> [[c]] | w # ws \<Rightarrow> (c # w) # ws))"

definition is_comma :: "char \<Rightarrow> bool" where
  "is_comma c = (c = CHR '','')"

definition is_comma_or_semicolon :: "char \<Rightarrow> bool" where
  "is_comma_or_semicolon c = (c = CHR '','' \<or> c = CHR '';'')"

text \<open>\<^verbatim>\<open>value.replace(' ', 'T')\<close>\<close>

definition replace_space_T :: "string \<Rightarrow> string" where
  "replace_space_T s = map (\<lambda>c. if c = CHR '' '' then CHR ''T'' else c) s"

text \<open>\<^verbatim>\<open>sep.join(parts)\<close>\<close>

fun join_with :: "string \<Rightarrow> string list \<Rightarrow> string" where
  "join_with sep [] = []"
| "join_with sep [p] = p"
| "join_with sep (p # q # ps) = p @ sep @ join_with sep (q # ps)"

type_synonym path = string

text \<open>\<^verbatim>\<open>os.path.join(a, b)\<close> of posixpath, for two components.\<close>

definition path_join :: "path \<Rightarrow> path \<Rightarrow> path" where
  "path_join a b =
     (if b \<noteq> [] \<and> hd b = CHR ''/'' then b
      else if a = [] \<or> last a = CHR ''/'' then a @ b
      else a @ ''/'' @ b)"

text \<open>\<^verbatim>\<open>os.path.basename(p)\<close>: what follows the last slash.\<close>

definition basename :: "path \<Rightarrow> path" where
  "basename p = rev (takeWhile (\<lambda>c. c \<noteq> CHR ''/'') (rev p))"

section \<open>Errors\<close>

text \<open>
  Every exception that leaves a function of the source is a value. \<open>SystemExit\<close> is what
  \<^verbatim>\<open>die\<close> raises through \<^verbatim>\<open>sys.exit(message)\<close>; \<open>NameError\<close> is what the loggers' \<^verbatim>\<open>raise
  ValueException(...)\<close> raises, the name \<^verbatim>\<open>ValueException\<close> being bound nowhere.
\<close>

datatype fatal = InsufficientDiskSpace | CannotCreateDirectory path | ApiException | ApiUnparsable

datatype error =
    SystemExit fatal
  | TypeError
  | KeyError
  | NameError
  | FileNotFoundError
  | OSError
  | ReadError

section \<open>The structured (ECS) event transformer\<close>

text \<open>
  An event is a Python dict from keys to values; the values the transformer stores are a
  string, a list of strings (the tags) or a nested dict of strings (the labels). A dict
  keeps its keys in insertion order and assigning to a present key keeps its place, which
  is \<^const>\<open>AList.update\<close>. A row of \<^verbatim>\<open>csv.DictReader\<close> is a dict from column names to cells,
  iterated in column order.
\<close>

datatype py_value = Str string | StrList "string list" | Dict "(string \<times> string) list"

type_synonym ecs_event = "(string \<times> py_value) list"
type_synonym row = "(string \<times> string) list"

definition set_timestamp :: "ecs_event \<Rightarrow> string \<Rightarrow> string \<Rightarrow> ecs_event" where
  "set_timestamp event field v =
     AList.update ''timestamp'' (Str (replace_space_T v @ ''Z'')) event"

definition set_tags :: "ecs_event \<Rightarrow> string \<Rightarrow> string \<Rightarrow> ecs_event" where
  "set_tags event field v =
     AList.update ''tags'' (StrList (split_on is_comma_or_semicolon v)) event"

text \<open>
  \<^verbatim>\<open>set_labels\<close>: the assignment \<^verbatim>\<open>event['labels'][args[0]] = value\<close> stands in a
  \<^verbatim>\<open>try\<close> whose handler passes, so an empty \<open>args\<close> (IndexError) and a \<^verbatim>\<open>labels\<close> entry
  that is not a dict (TypeError on item assignment) leave the event as it is.
\<close>

definition set_labels :: "ecs_event \<Rightarrow> string \<Rightarrow> string \<Rightarrow> string list \<Rightarrow> ecs_event" where
  "set_labels event field v args =
     (let event1 = (if map_of event ''labels'' = None
                    then AList.update ''labels'' (Dict []) event else event)
      in case args of
           [] \<Rightarrow> event1
         | a # _ \<Rightarrow>
             (case map_of event1 ''labels'' of
                Some (Dict d) \<Rightarrow> AList.update ''labels'' (Dict (AList.update a v d)) event1
              | _ \<Rightarrow> event1))"

text \<open>The registry \<^verbatim>\<open>ShadowserverECSLogger.functions\<close>.\<close>

datatype func = Timestamp | Labels | Tags

definition ecs_functions :: "string \<Rightarrow> func option" where
  "ecs_functions name =
     (if name = ''timestamp'' then Some Timestamp
      else if name = ''labels'' then Some Labels
      else if name = ''tags'' then Some Tags
      else None)"

text \<open>
  \<^verbatim>\<open>self.functions[func](event, field, value, args)\<close> and
  \<^verbatim>\<open>self.functions[func](event, field, value)\<close>: \<^verbatim>\<open>set_timestamp\<close> and \<^verbatim>\<open>set_tags\<close> take
  three parameters and \<^verbatim>\<open>set_labels\<close> four, so the other arity raises TypeError.
\<close>

fun call_with_args :: "func \<Rightarrow> ecs_event \<Rightarrow> string \<Rightarrow> string \<Rightarrow> string list \<Rightarrow> error + ecs_event" where
  "call_with_args Labels event field v args = Inr (set_labels event field v args)"
| "call_with_args Timestamp event field v args = Inl TypeError"
| "call_with_args Tags event field v args = Inl TypeError"

fun call_without_args :: "func \<Rightarrow> ecs_event \<Rightarrow> string \<Rightarrow> string \<Rightarrow> error + ecs_event" where
  "call_without_args Timestamp event field v = Inr (set_timestamp event field v)"
| "call_without_args Tags event field v = Inr (set_tags event field v)"
| "call_without_args Labels event field v = Inl TypeError"

text \<open>
  \<^verbatim>\<open>re.match("^\&([^\(]+)\(([^\)]+)\)", mapped)\<close>: an ampersand, a non-empty run of
  characters other than \<open>(\<close> that ends at a \<open>(\<close>, a non-empty run of characters other
  than \<open>)\<close> that ends at a \<open>)\<close>. The groups are the two runs. A negated character class
  also matches a newline, so no character is special.
\<close>

definition match_directive_args :: "string \<Rightarrow> (string \<times> string) option" where
  "match_directive_args mapped =
     (case mapped of
        [] \<Rightarrow> None
      | c # t \<Rightarrow>
          if c \<noteq> CHR ''&'' then None
          else
            let g1 = takeWhile (\<lambda>x. x \<noteq> CHR ''('') t;
                r1 = dropWhile (\<lambda>x. x \<noteq> CHR ''('') t
            in if g1 = [] \<or> r1 = [] then None
               else
                 let g2 = takeWhile (\<lambda>x. x \<noteq> CHR '')'') (tl r1);
                     r2 = dropWhile (\<lambda>x. x \<noteq> CHR '')'') (tl r1)
                 in if g2 = [] \<or> r2 = [] then None else Some (g1, g2))"

text \<open>\<^verbatim>\<open>re.match("^\&([^\(]+)", mapped)\<close>\<close>

definition match_directive :: "string \<Rightarrow> string option" where
  "match_directive mapped =
     (case mapped of
        [] \<Rightarrow> None
      | c # t \<Rightarrow>
          if c \<noteq> CHR ''&'' then None
          else
            let g1 = takeWhile (\<lambda>x. x \<noteq> CHR ''('') t
            in if g1 = [] then None else Some g1)"

text \<open>
  The value of \<^verbatim>\<open>mapped\<close> after the two lookups of \<^verbatim>\<open>_stream_events\<close>: it starts as
  \<^verbatim>\<open>".".join(['extra', field])\<close>, is replaced when \<^verbatim>\<open>type.field\<close> is a key of the table,
  and is replaced again when \<^verbatim>\<open>field\<close> is a key of the table.
\<close>

definition mapped_target :: "(string \<rightharpoonup> string) \<Rightarrow> string \<Rightarrow> string \<Rightarrow> string" where
  "mapped_target table rtype field =
     (let mapped0 = join_with ''.'' [''extra'', field];
          name = join_with ''.'' [rtype, field];
          mapped1 = (case table name of Some t \<Rightarrow> t | None \<Rightarrow> mapped0);
          mapped2 = (case table field of Some t \<Rightarrow> t | None \<Rightarrow> mapped1)
      in mapped2)"

text \<open>The body of \<^verbatim>\<open>for field in row\<close>, for one field and its cell.\<close>

definition ecs_field :: "(string \<rightharpoonup> string) \<Rightarrow> string \<Rightarrow> ecs_event \<Rightarrow> string \<times> string \<Rightarrow> error + ecs_event" where
  "ecs_field table rtype event fv =
     (let field = fst fv; v = snd fv; mapped = mapped_target table rtype field
      in if v = [] then Inr event
         else
           (case match_directive_args mapped of
              Some (fname, argstr) \<Rightarrow>
                (case ecs_functions fname of
                   Some f \<Rightarrow> call_with_args f event field v (split_on is_comma argstr)
                 | None \<Rightarrow> Inr event)
            | None \<Rightarrow>
                (case match_directive mapped of
                   Some fname \<Rightarrow>
                     (case ecs_functions fname of
                        Some f \<Rightarrow> call_without_args f event field v
                      | None \<Rightarrow> Inr event)
                 | None \<Rightarrow> Inr (AList.update mapped (Str v) event))))"

fun ecs_fields :: "(string \<rightharpoonup> string) \<Rightarrow> string \<Rightarrow> ecs_event \<Rightarrow> row \<Rightarrow> error + ecs_event" where
  "ecs_fields table rtype event [] = Inr event"
| "ecs_fields table rtype event (fv # fvs) =
     (case ecs_field table rtype event fv of
        Inl e \<Rightarrow> Inl e
      | Inr event' \<Rightarrow> ecs_fields table rtype event' fvs)"

text \<open>One row: the event handed to \<^verbatim>\<open>logger.info('', extra=event)\<close>.\<close>

definition ecs_row :: "(string \<rightharpoonup> string) \<Rightarrow> string \<Rightarrow> row \<Rightarrow> error + ecs_event" where
  "ecs_row table rtype r =
     (case ecs_fields table rtype [] r of
        Inl e \<Rightarrow> Inl e
      | Inr event \<Rightarrow> Inr (AList.update ''data_stream.dataset'' (Str rtype) event))"

section \<open>The environment: file system, network, clock\<close>

text \<open>
  The file system is a map from path strings to regular files; a file has its bytes and
  its modification time (seconds, as \<^verbatim>\<open>time.time()\<close> counts them, rounded to integers).
  Directories are not stored: whether a directory can be created is asked of the
  environment (\<open>mkdir_fails p\<close>: \<open>p\<close> is no directory and \<^verbatim>\<open>os.mkdir(p)\<close> raises). Two
  paths are the same file when they are the same string. Renaming, truncating and
  unlinking a file that is there succeed. One run reads one clock value, for the
  modification times it writes and for the sweep, and asks the download server the same
  answer for the same URL.

  What is left out: the API key and the HMAC header of a request, the text of the
  diagnostic messages (a message is a value of \<open>message\<close>, not a formatted string), and
  the opening of the syslog and of the log files. A CSV row has a cell for every column
  and no more.
\<close>

record regular_file =
  content :: string
  mtime :: int

type_synonym filesystem = "path \<Rightarrow> regular_file option"

text \<open>One entry of the API's report listing.\<close>

record report =
  report_id :: string
  report_file :: string
  report_type :: string
  report_timestamp :: string

text \<open>The request dictionary of \<^verbatim>\<open>reports/list\<close>, before the API key is added to it.\<close>

record request =
  req_date :: string
  req_reports :: "string list option"

text \<open>
  What \<^verbatim>\<open>urlretrieve(url, filename)\<close> can do: raise before the destination is opened,
  raise after it has written some bytes, or return after it has written them all.
\<close>

datatype fetch_result = FetchRefused | FetchBroken string | FetchDone string

text \<open>
  What a call of the API can give: the request raises, the response is not JSON, the
  response is JSON \<^verbatim>\<open>null\<close>, or it is a list of report descriptors.
\<close>

datatype api_result = ApiFails | ApiGarbage | ApiNull | ApiReports "report list"

text \<open>
  Everything the programs read from outside. Dates are day ordinals
  (\<^verbatim>\<open>date.toordinal()\<close>), so that \<^verbatim>\<open>date - timedelta(n)\<close> is a subtraction; \<open>isoformat\<close>
  is \<^verbatim>\<open>date.isoformat()\<close>, which is also what \<^verbatim>\<open>strftime("%Y-%m-%d")\<close> prints.
  \<open>csv_reader\<close> is \<^verbatim>\<open>csv.DictReader\<close> over a file's bytes: the rows it yields, and the error
  it raises after them if it raises one.
\<close>

record env =
  net :: "string \<Rightarrow> fetch_result"
  api :: "string \<Rightarrow> request \<Rightarrow> api_result"
  clock :: int
  local_today :: int
  utc_today :: int
  isoformat :: "int \<Rightarrow> string"
  mkdir_fails :: "path \<Rightarrow> bool"
  disk_free :: "path \<Rightarrow> filesystem \<Rightarrow> int"
  notify_fails :: bool
  json_parses :: "string \<Rightarrow> bool"
  csv_reader :: "string \<Rightarrow> row list \<times> error option"

text \<open>What the programs do to the outside, in order.\<close>

datatype message =
    WarnNoMapping string string
  | ErrorDownloadFailed
  | InfoProcessed nat string
  | InfoMappingDownloaded
  | UnableToDownload string
  | Died fatal
  | Completed nat

datatype action =
    ApiCall string request
  | Retrieve string path
  | Print message
  | SyslogMsg message
  | Syslog string
  | LogInfo "path list" ecs_event
  | Notify report path

record world =
  files :: filesystem
  out :: "action list"

definition emit :: "action \<Rightarrow> 'a world_scheme \<Rightarrow> 'a world_scheme" where
  "emit a w = w\<lparr>out := out w @ [a]\<rparr>"

definition DLROOT :: string where
  "DLROOT = ''https://dl.shadowserver.org/''"

definition MAX_AGE :: int where
  "MAX_AGE = 86400 * 7"

definition urlretrieve :: "fetch_result \<Rightarrow> path \<Rightarrow> int \<Rightarrow> filesystem \<Rightarrow> bool \<times> filesystem" where
  "urlretrieve res p now fs =
     (case res of
        FetchRefused \<Rightarrow> (False, fs)
      | FetchBroken b \<Rightarrow> (False, fs(p \<mapsto> \<lparr>content = b, mtime = now\<rparr>))
      | FetchDone b \<Rightarrow> (True, fs(p \<mapsto> \<lparr>content = b, mtime = now\<rparr>)))"

text \<open>\<^verbatim>\<open>os.path.getsize\<close>; \<open>None\<close> is the OSError for a missing file.\<close>

definition getsize :: "filesystem \<Rightarrow> path \<Rightarrow> nat option" where
  "getsize fs p = (case fs p of None \<Rightarrow> None | Some f \<Rightarrow> Some (length (content f)))"

text \<open>\<^verbatim>\<open>os.rename(src, dst)\<close> of an existing file: \<open>dst\<close> is replaced, \<open>src\<close> is gone.\<close>

definition rename :: "path \<Rightarrow> path \<Rightarrow> filesystem \<Rightarrow> filesystem" where
  "rename src dst fs = (fs(dst := fs src))(src := None)"

text \<open>\<^verbatim>\<open>fh = open(path, 'a'); fh.truncate(0); fh.close()\<close>\<close>

definition truncate_file :: "path \<Rightarrow> int \<Rightarrow> filesystem \<Rightarrow> filesystem" where
  "truncate_file p now fs = fs(p \<mapsto> \<lparr>content = [], mtime = now\<rparr>)"

section \<open>Mapping refresh (both loggers)\<close>

definition CEF_MAPURL :: string where
  "CEF_MAPURL = ''https://interchange.shadowserver.org/cef/v1/map''"

definition ECS_MAPURL :: string where
  "ECS_MAPURL = ''https://interchange.shadowserver.org/elasticsearch/v1/map''"

definition map_filename :: string where
  "map_filename = ''map.json''"

definition map_tmp :: "path \<Rightarrow> path" where
  "map_tmp state_directory = path_join state_directory (''.'' @ map_filename)"

definition map_path :: "path \<Rightarrow> path" where
  "map_path state_directory = path_join state_directory map_filename"

text \<open>
  The \<^verbatim>\<open>try\<close> block of \<^verbatim>\<open>update\<close>: the status it leaves and whether its handler printed.
  \<^verbatim>\<open>json.load\<close> of the fetched file is asked of the environment.
\<close>

definition update_fetch :: "string \<Rightarrow> env \<Rightarrow> path \<Rightarrow> world \<Rightarrow> bool \<times> world" where
  "update_fetch mapurl env state_directory w =
     (let (returned, fs1) =
            urlretrieve (net env mapurl) (map_tmp state_directory) (clock env) (files w);
          w1 = emit (Retrieve mapurl (map_tmp state_directory)) (w\<lparr>files := fs1\<rparr>)
      in if \<not> returned then (False, emit (Print ErrorDownloadFailed) w1)
         else
           (case fs1 (map_tmp state_directory) of
              None \<Rightarrow> (False, emit (Print ErrorDownloadFailed) w1)
            | Some f \<Rightarrow>
                if length (content f) > 0
                then (if json_parses env (content f) then (True, w1)
                      else (False, emit (Print ErrorDownloadFailed) w1))
                else (False, w1)))"

text \<open>\<^verbatim>\<open>update\<close>, the same in both loggers but for \<^verbatim>\<open>MAPURL\<close>.\<close>

definition update :: "string \<Rightarrow> env \<Rightarrow> path \<Rightarrow> world \<Rightarrow> bool \<times> world" where
  "update mapurl env state_directory w =
     (let (status, w1) = update_fetch mapurl env state_directory w
      in if status
         then (True,
               (emit (Print InfoMappingDownloaded) w1)
                 \<lparr>files := rename (map_tmp state_directory) (map_path state_directory) (files w1)\<rparr>)
         else if files w1 (map_tmp state_directory) \<noteq> None
              then (False, w1\<lparr>files := (files w1)(map_tmp state_directory := None)\<rparr>)
              else (False, w1))"

definition cef_update :: "env \<Rightarrow> path \<Rightarrow> world \<Rightarrow> bool \<times> world" where
  "cef_update = update CEF_MAPURL"

definition ecs_update :: "env \<Rightarrow> path \<Rightarrow> world \<Rightarrow> bool \<times> world" where
  "ecs_update = update ECS_MAPURL"

section \<open>The report manager\<close>

text \<open>
  The \<^verbatim>\<open>ReportManager\<close> object together with the world it acts on. \<open>has_notifier\<close> is
  \<^verbatim>\<open>self.notifier is not None\<close>.
\<close>

record manager = world +
  basedir :: path
  threshold :: int
  has_notifier :: bool
  count :: nat

text \<open>
  \<^verbatim>\<open>int(config.get('reports', 'min_disk_free', fallback=512)) * 1024 * 1024\<close>, from the
  configured number if there is one.
\<close>

definition rm_threshold :: "int option \<Rightarrow> int" where
  "rm_threshold min_disk_free =
     (case min_disk_free of None \<Rightarrow> 512 | Some v \<Rightarrow> v) * 1024 * 1024"

definition die :: "fatal \<Rightarrow> manager \<Rightarrow> error option \<times> manager" where
  "die f m = (Some (SystemExit f), emit (SyslogMsg (Died f)) m)"

definition rm_tmp :: "path \<Rightarrow> report \<Rightarrow> path" where
  "rm_tmp directory r = path_join directory (''.'' @ report_file r)"

definition rm_dst :: "path \<Rightarrow> report \<Rightarrow> path" where
  "rm_dst directory r = path_join directory (report_file r)"

text \<open>
  \<^verbatim>\<open>ReportManager._download\<close>. Every exception of the \<^verbatim>\<open>try\<close> block, the notifier's
  included, is caught and logged.
\<close>

definition rm_download :: "env \<Rightarrow> report \<Rightarrow> path \<Rightarrow> manager \<Rightarrow> manager" where
  "rm_download env r directory m =
     (let tmp = rm_tmp directory r; dst = rm_dst directory r
      in if files m dst \<noteq> None then m
         else
           let (returned, fs1) =
                 urlretrieve (net env (DLROOT @ report_id r)) tmp (clock env) (files m);
               m1 = emit (Retrieve (DLROOT @ report_id r) tmp) (m\<lparr>files := fs1\<rparr>)
           in if \<not> returned then emit (SyslogMsg (UnableToDownload (report_file r))) m1
              else
                (case getsize fs1 tmp of
                   None \<Rightarrow> emit (SyslogMsg (UnableToDownload (report_file r))) m1
                 | Some n \<Rightarrow>
                     if n > 0
                     then
                       let m2 = m1\<lparr>files := rename tmp dst fs1, count := count m1 + 1\<rparr>
                       in if has_notifier m2
                          then (if notify_fails env
                                then emit (SyslogMsg (UnableToDownload (report_file r))) m2
                                else emit (Notify r dst) m2)
                          else m2
                     else m1))"

text \<open>The loop \<^verbatim>\<open>for report in reports\<close> of \<^verbatim>\<open>_sync\<close>.\<close>

fun rm_download_all :: "env \<Rightarrow> path \<Rightarrow> report list \<Rightarrow> manager \<Rightarrow> error option \<times> manager" where
  "rm_download_all env directory [] m = (None, m)"
| "rm_download_all env directory (r # rs) m =
     (if disk_free env directory (files m) < threshold m
      then die InsufficientDiskSpace m
      else rm_download_all env directory rs (rm_download env r directory m))"

text \<open>The loop that makes the tree folders: the directory reached, unless \<^verbatim>\<open>mkdir\<close> died.\<close>

fun rm_mkdirs :: "env \<Rightarrow> path \<Rightarrow> string list \<Rightarrow> fatal + path" where
  "rm_mkdirs env directory [] = Inr directory"
| "rm_mkdirs env directory (folder # folders) =
     (if mkdir_fails env (path_join directory folder)
      then Inl (CannotCreateDirectory (path_join directory folder))
      else rm_mkdirs env (path_join directory folder) folders)"

definition date_folders :: "string \<Rightarrow> string list" where
  "date_folders date = [take 4 date, take 2 (drop 5 date), take 2 (drop 8 date)]"

definition rm_sync :: "env \<Rightarrow> string \<Rightarrow> manager \<Rightarrow> error option \<times> manager" where
  "rm_sync env date m =
     (case rm_mkdirs env (basedir m) (date_folders date) of
        Inl f \<Rightarrow> die f m
      | Inr directory \<Rightarrow>
          let rq = \<lparr>req_date = date, req_reports = None\<rparr>;
              m1 = emit (ApiCall ''reports/list'' rq) m
          in (case api env ''reports/list'' rq of
                ApiFails \<Rightarrow> die ApiException m1
              | ApiGarbage \<Rightarrow> die ApiUnparsable m1
              | ApiNull \<Rightarrow> (Some TypeError, m1)
              | ApiReports reports \<Rightarrow> rm_download_all env directory reports m1))"

text \<open>\<^verbatim>\<open>run\<close>: the days \<^verbatim>\<open>reversed(range(1, days+1))\<close>, oldest first.\<close>

fun rm_run_days :: "env \<Rightarrow> int list \<Rightarrow> manager \<Rightarrow> error option \<times> manager" where
  "rm_run_days env [] m = (None, m)"
| "rm_run_days env (i # ds) m =
     (case rm_sync env (isoformat env (utc_today env - i)) m of
        (None, m') \<Rightarrow> rm_run_days env ds m'
      | (Some e, m') \<Rightarrow> (Some e, m'))"

definition rm_run :: "env \<Rightarrow> int \<Rightarrow> manager \<Rightarrow> error option \<times> manager" where
  "rm_run env days m =
     (case rm_run_days env (rev [1..days]) m of
        (None, m') \<Rightarrow> (None, emit (SyslogMsg (Completed (count m'))) m')
      | (Some e, m') \<Rightarrow> (Some e, m'))"

section \<open>What the two loggers share\<close>

text \<open>
  A logger object: the state directory, the mapping document loaded at start, the mode
  and the configuration, a list of sections in file order, each with the keys it has
  (the defaults included, as \<^verbatim>\<open>configparser\<close> shows them).
\<close>

record 'm logger =
  state_directory :: path
  mapping :: 'm
  run_mode :: string
  config :: "(string \<times> (string \<rightharpoonup> string)) list"

text \<open>
  \<^verbatim>\<open>_download\<close>, the same in both loggers: the report is fetched to the final path itself.
  The handler of the \<^verbatim>\<open>try\<close> prints and unlinks the path; \<^verbatim>\<open>os.unlink\<close> of a path
  that is not there raises FileNotFoundError out of the handler.
\<close>

definition download_handler :: "path \<Rightarrow> world \<Rightarrow> (error + bool) \<times> world" where
  "download_handler p w =
     (let w1 = emit (Print ErrorDownloadFailed) w
      in case files w1 p of
           None \<Rightarrow> (Inl FileNotFoundError, w1)
         | Some f \<Rightarrow> (Inr False, w1\<lparr>files := (files w1)(p := None)\<rparr>))"

definition logger_download :: "env \<Rightarrow> report \<Rightarrow> path \<Rightarrow> world \<Rightarrow> (error + bool) \<times> world" where
  "logger_download env r p w =
     (let (returned, fs1) =
            urlretrieve (net env (DLROOT @ report_id r)) p (clock env) (files w);
          w1 = emit (Retrieve (DLROOT @ report_id r) p) (w\<lparr>files := fs1\<rparr>)
      in if \<not> returned then download_handler p w1
         else
           (case getsize fs1 p of
              None \<Rightarrow> download_handler p w1
            | Some n \<Rightarrow> (Inr (n > 0), w1)))"

text \<open>
  The expiry sweep over \<^verbatim>\<open>os.listdir(dst)\<close>: \<open>in_directory dst p\<close> says that \<open>p\<close> is
  \<^verbatim>\<open>os.path.join(dst, name)\<close> for a name with no slash in it; every such regular file
  older than \<open>MAX_AGE\<close> is unlinked. The unlinks do not depend on one another, so the
  sweep is given by what it leaves at each path.
\<close>

definition in_directory :: "path \<Rightarrow> path \<Rightarrow> bool" where
  "in_directory dst p =
     (let d = path_join dst []
      in take (length d) p = d \<and> drop (length d) p \<noteq> [] \<and> CHR ''/'' \<notin> set (drop (length d) p))"

definition expire :: "env \<Rightarrow> path \<Rightarrow> world \<Rightarrow> world" where
  "expire env dst w =
     w\<lparr>files := (\<lambda>p. case files w p of
                        None \<Rightarrow> None
                      | Some f \<Rightarrow>
                          if in_directory dst p \<and> clock env - mtime f > MAX_AGE then None
                          else Some f)\<rparr>"

definition type_filtered :: "string list option \<Rightarrow> report \<Rightarrow> bool" where
  "type_filtered types r =
     (case types of None \<Rightarrow> False | Some ts \<Rightarrow> report_type r \<notin> set ts)"

section \<open>The CEF logger\<close>

definition facilities :: "string list" where
  "facilities =
     [''kern'', ''user'', ''mail'', ''daemon'', ''auth'', ''lpr'', ''news'', ''uucp'', ''cron'',
      ''syslog'', ''local0'', ''local1'', ''local2'', ''local3'', ''local4'', ''local5'',
      ''local6'', ''local7'']"

definition severity_ref :: "(string \<times> string) list" where
  "severity_ref =
     [(''info'', ''0''), (''low'', ''1''), (''medium'', ''5''), (''high'', ''8''),
      (''critical'', ''10'')]"

definition cef_severity :: "row \<Rightarrow> string" where
  "cef_severity r =
     (case map_of r ''severity'' of
        None \<Rightarrow> ''0''
      | Some s \<Rightarrow> (case map_of severity_ref s of None \<Rightarrow> ''0'' | Some level \<Rightarrow> level))"

definition cef_version :: string where
  "cef_version = ''0''"

definition device_version :: string where
  "device_version = ''1.0''"

text \<open>
  \<^verbatim>\<open>re.match('^(c6a|cfp|cn|cs|deviceCustomDate|flexDate|flexString)\d$', cef)\<close>: one of the
  prefixes and one digit, then the end of the string or a last newline.
\<close>

definition label_prefixes :: "string list" where
  "label_prefixes =
     [''c6a'', ''cfp'', ''cn'', ''cs'', ''deviceCustomDate'', ''flexDate'', ''flexString'']"

definition matches_label_key :: "string \<Rightarrow> bool" where
  "matches_label_key cef =
     (let body = (if cef \<noteq> [] \<and> last cef = CHR 0x0A then butlast cef else cef)
      in body \<noteq> [] \<and> last body \<in> set ''0123456789'' \<and> butlast body \<in> set label_prefixes)"

definition cef_field :: "(string \<rightharpoonup> string) \<Rightarrow> string \<times> string \<Rightarrow> string list" where
  "cef_field fmap fv =
     (let field = fst fv; v = snd fv
      in if v \<noteq> []
         then (case fmap field of
                 Some cef \<Rightarrow>
                   (cef @ ''='' @ v)
                     # (if matches_label_key cef then [cef @ ''Label:'' @ field] else [])
               | None \<Rightarrow> [])
         else [])"

definition cef_row :: "(string \<rightharpoonup> string) \<Rightarrow> string \<Rightarrow> string \<Rightarrow> row \<Rightarrow> error + string" where
  "cef_row fmap device_id rtype r =
     (case map_of r ''timestamp'' of
        None \<Rightarrow> Inl KeyError
      | Some ts \<Rightarrow>
          Inr (join_with '' ''
                ((''CEF:'' @ cef_version @ ''|Shadowserver|Reports|'' @ device_version @ ''|''
                    @ device_id @ ''|'' @ rtype @ ''|'' @ cef_severity r @ ''|start=''
                    @ replace_space_T ts)
                 # concat (map (cef_field fmap) r))))"

fun cef_rows :: "(string \<rightharpoonup> string) \<Rightarrow> string \<Rightarrow> string \<Rightarrow> row list \<Rightarrow> world \<Rightarrow> error option \<times> world" where
  "cef_rows fmap device_id rtype [] w = (None, w)"
| "cef_rows fmap device_id rtype (r # rs) w =
     (case cef_row fmap device_id rtype r of
        Inl e \<Rightarrow> (Some e, w)
      | Inr line \<Rightarrow> cef_rows fmap device_id rtype rs (emit (Syslog line) w))"

text \<open>
  The CEF mapping document gives each report type its field table (the \<^verbatim>\<open>'map'\<close> entry
  of the type's object).
\<close>

type_synonym cef_mapping = "string \<rightharpoonup> (string \<rightharpoonup> string)"

definition cef_stream_events :: "env \<Rightarrow> cef_mapping \<Rightarrow> report \<Rightarrow> path \<Rightarrow> string \<Rightarrow> world \<Rightarrow> error option \<times> world" where
  "cef_stream_events env mp r p device_id w =
     (case files w p of
        None \<Rightarrow> (Some FileNotFoundError, w)
      | Some f \<Rightarrow>
          (case mp (report_type r) of
             None \<Rightarrow> (Some KeyError, w)
           | Some fmap \<Rightarrow>
               let (rows, err) = csv_reader env (content f)
               in (case cef_rows fmap device_id (report_type r) rows w of
                     (Some e, w1) \<Rightarrow> (Some e, w1)
                   | (None, w1) \<Rightarrow>
                       (case err of
                          Some e \<Rightarrow> (Some e, w1)
                        | None \<Rightarrow>
                            (None, emit (Print (InfoProcessed (length rows) (report_file r))) w1)))))"

text \<open>The body of \<^verbatim>\<open>for report in reports\<close> of the CEF logger's \<^verbatim>\<open>run\<close>.\<close>

definition cef_report :: "env \<Rightarrow> cef_mapping \<Rightarrow> string list option \<Rightarrow> path \<Rightarrow> string \<Rightarrow> report \<Rightarrow> world \<Rightarrow> error option \<times> world" where
  "cef_report env mp types dst device_id r w =
     (if type_filtered types r then (None, w)
      else
        let p = path_join dst (report_file r)
        in if files w p \<noteq> None then (None, w)
           else if mp (report_type r) = None
           then (None, emit (Print (WarnNoMapping (report_type r) (report_file r))) w)
           else
             (case logger_download env r p w of
                (Inl e, w1) \<Rightarrow> (Some e, w1)
              | (Inr False, w1) \<Rightarrow> (None, w1)
              | (Inr True, w1) \<Rightarrow>
                  (case cef_stream_events env mp r p device_id w1 of
                     (Some e, w2) \<Rightarrow> (Some e, w2)
                   | (None, w2) \<Rightarrow>
                       (None, w2\<lparr>files := truncate_file p (clock env) (files w2)\<rparr>))))"

fun cef_reports :: "env \<Rightarrow> cef_mapping \<Rightarrow> string list option \<Rightarrow> path \<Rightarrow> string \<Rightarrow> report list \<Rightarrow> world \<Rightarrow> error option \<times> world" where
  "cef_reports env mp types dst device_id [] w = (None, w)"
| "cef_reports env mp types dst device_id (r # rs) w =
     (case cef_report env mp types dst device_id r w of
        (Some e, w1) \<Rightarrow> (Some e, w1)
      | (None, w1) \<Rightarrow> cef_reports env mp types dst device_id rs w1)"

text \<open>\<^verbatim>\<open>date_str\<close> of the CEF logger: local today, two days back to one day ahead.\<close>

definition cef_date_str :: "env \<Rightarrow> string" where
  "cef_date_str env =
     isoformat env (local_today env - 2) @ '':'' @ isoformat env (local_today env + 1)"

text \<open>
  The body of \<^verbatim>\<open>for input_name in self.config\<close> for a section that has a
  \<^verbatim>\<open>facility\<close>. \<^verbatim>\<open>_api_call\<close> answers a failed request and an unparsable response with
  \<^verbatim>\<open>raise ValueException(...)\<close>, a NameError.
\<close>

definition cef_input :: "env \<Rightarrow> cef_mapping logger \<Rightarrow> string \<Rightarrow> (string \<rightharpoonup> string) \<Rightarrow> string \<Rightarrow> world \<Rightarrow> error option \<times> world" where
  "cef_input env lg input_name input_item facility w =
     (if facility \<notin> set facilities then (Some NameError, w)
      else
        let types = map_option (split_on is_comma) (input_item ''types'');
            rq = \<lparr>req_date = cef_date_str env,
                  req_reports = map_option (split_on is_comma) (input_item ''reports'')\<rparr>;
            device_id = (case input_item ''device_event_class_id'' of
                           Some d \<Rightarrow> d | None \<Rightarrow> ''100'');
            dst = path_join (state_directory lg) (basename input_name)
        in if mkdir_fails env dst then (Some OSError, w)
           else
             let w1 = emit (ApiCall ''reports/list'' rq) w
             in (case api env ''reports/list'' rq of
                   ApiFails \<Rightarrow> (Some NameError, w1)
                 | ApiGarbage \<Rightarrow> (Some NameError, w1)
                 | ApiNull \<Rightarrow> (None, expire env dst w1)
                 | ApiReports reports \<Rightarrow>
                     (case cef_reports env (mapping lg) types dst device_id reports w1 of
                        (Some e, w2) \<Rightarrow> (Some e, w2)
                      | (None, w2) \<Rightarrow> (None, expire env dst w2))))"

fun cef_inputs :: "env \<Rightarrow> cef_mapping logger \<Rightarrow> (string \<times> (string \<rightharpoonup> string)) list \<Rightarrow> world \<Rightarrow> error option \<times> world" where
  "cef_inputs env lg [] w = (None, w)"
| "cef_inputs env lg ((input_name, input_item) # rest) w =
     (case input_item ''facility'' of
        None \<Rightarrow> cef_inputs env lg rest w
      | Some facility \<Rightarrow>
          (case cef_input env lg input_name input_item facility w of
             (Some e, w1) \<Rightarrow> (Some e, w1)
           | (None, w1) \<Rightarrow> cef_inputs env lg rest w1))"

definition cef_run :: "env \<Rightarrow> cef_mapping logger \<Rightarrow> world \<Rightarrow> error option \<times> world" where
  "cef_run env lg w =
     (if run_mode lg \<noteq> ''run'' then (None, w) else cef_inputs env lg (config lg) w)"

section \<open>The ECS logger\<close>

text \<open>The ECS mapping document's \<^verbatim>\<open>'map'\<close> table.\<close>

type_synonym ecs_mapping = "string \<rightharpoonup> string"

fun ecs_rows :: "ecs_mapping \<Rightarrow> path list \<Rightarrow> string \<Rightarrow> row list \<Rightarrow> world \<Rightarrow> error option \<times> world" where
  "ecs_rows table handlers rtype [] w = (None, w)"
| "ecs_rows table handlers rtype (r # rs) w =
     (case ecs_row table rtype r of
        Inl e \<Rightarrow> (Some e, w)
      | Inr event \<Rightarrow> ecs_rows table handlers rtype rs (emit (LogInfo handlers event) w))"

text \<open>
  \<^verbatim>\<open>_stream_events\<close> of the ECS logger. \<open>handlers\<close> are the log files attached to the
  logger \<^verbatim>\<open>'app'\<close> when the event is logged.
\<close>

definition ecs_stream_events :: "env \<Rightarrow> ecs_mapping \<Rightarrow> path list \<Rightarrow> report \<Rightarrow> path \<Rightarrow> world \<Rightarrow> error option \<times> world" where
  "ecs_stream_events env table handlers r p w =
     (case files w p of
        None \<Rightarrow> (Some FileNotFoundError, w)
      | Some f \<Rightarrow>
          let (rows, err) = csv_reader env (content f)
          in (case ecs_rows table handlers (report_type r) rows w of
                (Some e, w1) \<Rightarrow> (Some e, w1)
              | (None, w1) \<Rightarrow>
                  (case err of
                     Some e \<Rightarrow> (Some e, w1)
                   | None \<Rightarrow>
                       (None, emit (Print (InfoProcessed (length rows) (report_file r))) w1))))"

definition ecs_report :: "env \<Rightarrow> ecs_mapping \<Rightarrow> path list \<Rightarrow> string list option \<Rightarrow> path \<Rightarrow> report \<Rightarrow> world \<Rightarrow> error option \<times> world" where
  "ecs_report env table handlers types dst r w =
     (if type_filtered types r then (None, w)
      else
        let p = path_join dst (report_file r)
        in if files w p \<noteq> None then (None, w)
           else
             (case logger_download env r p w of
                (Inl e, w1) \<Rightarrow> (Some e, w1)
              | (Inr False, w1) \<Rightarrow> (None, w1)
              | (Inr True, w1) \<Rightarrow>
                  (case ecs_stream_events env table handlers r p w1 of
                     (Some e, w2) \<Rightarrow> (Some e, w2)
                   | (None, w2) \<Rightarrow>
                       (None, w2\<lparr>files := truncate_file p (clock env) (files w2)\<rparr>))))"

fun ecs_reports :: "env \<Rightarrow> ecs_mapping \<Rightarrow> path list \<Rightarrow> string list option \<Rightarrow> path \<Rightarrow> report list \<Rightarrow> world \<Rightarrow> error option \<times> world" where
  "ecs_reports env table handlers types dst [] w = (None, w)"
| "ecs_reports env table handlers types dst (r # rs) w =
     (case ecs_report env table handlers types dst r w of
        (Some e, w1) \<Rightarrow> (Some e, w1)
      | (None, w1) \<Rightarrow> ecs_reports env table handlers types dst rs w1)"

text \<open>\<^verbatim>\<open>date_str\<close> of the ECS logger: UTC today, two days back to today.\<close>

definition ecs_date_str :: "env \<Rightarrow> string" where
  "ecs_date_str env =
     isoformat env (utc_today env - 2) @ '':'' @ isoformat env (utc_today env)"

definition ecs_input :: "env \<Rightarrow> ecs_mapping logger \<Rightarrow> path list \<Rightarrow> string \<Rightarrow> (string \<rightharpoonup> string) \<Rightarrow> world \<Rightarrow> error option \<times> world" where
  "ecs_input env lg handlers input_name input_item w =
     (let types = map_option (split_on is_comma) (input_item ''types'');
          rq = \<lparr>req_date = ecs_date_str env,
                req_reports = map_option (split_on is_comma) (input_item ''reports'')\<rparr>;
          dst = path_join (state_directory lg) (basename input_name)
      in if mkdir_fails env dst then (Some OSError, w)
         else
           let w1 = emit (ApiCall ''reports/list'' rq) w
           in (case api env ''reports/list'' rq of
                 ApiFails \<Rightarrow> (Some NameError, w1)
               | ApiGarbage \<Rightarrow> (Some NameError, w1)
               | ApiNull \<Rightarrow> (None, expire env dst w1)
               | ApiReports reports \<Rightarrow>
                   (case ecs_reports env (mapping lg) handlers types dst reports w1 of
                      (Some e, w2) \<Rightarrow> (Some e, w2)
                    | (None, w2) \<Rightarrow> (None, expire env dst w2))))"

text \<open>
  The sections in order. Every section with a \<^verbatim>\<open>log\<close> key adds its file handler to the
  one logger \<^verbatim>\<open>'app'\<close>, so the handlers accumulate over the sections.
\<close>

fun ecs_inputs :: "env \<Rightarrow> ecs_mapping logger \<Rightarrow> path list \<Rightarrow> (string \<times> (string \<rightharpoonup> string)) list \<Rightarrow> world \<Rightarrow> error option \<times> world" where
  "ecs_inputs env lg handlers [] w = (None, w)"
| "ecs_inputs env lg handlers ((input_name, input_item) # rest) w =
     (case input_item ''log'' of
        None \<Rightarrow> ecs_inputs env lg handlers rest w
      | Some logfile \<Rightarrow>
          (case ecs_input env lg (handlers @ [logfile]) input_name input_item w of
             (Some e, w1) \<Rightarrow> (Some e, w1)
           | (None, w1) \<Rightarrow> ecs_inputs env lg (handlers @ [logfile]) rest w1))"

definition ecs_run :: "env \<Rightarrow> ecs_mapping logger \<Rightarrow> world \<Rightarrow> error option \<times> world" where
  "ecs_run env lg w =
     (if run_mode lg \<noteq> ''run'' then (None, w) else ecs_inputs env lg [] (config lg) w)"

section \<open>What a completed run leaves\<close>








section \<open>Concrete inputs\<close>

text \<open>
  A small environment for the concrete evaluations below: the calendar around
  2024-01-10 (day ordinal 738895), a network that refuses every fetch and an API that
  answers \<^verbatim>\<open>null\<close>, unless a field is overridden where it is used.
\<close>

definition sample_isoformat :: "int \<Rightarrow> string" where
  "sample_isoformat d =
     (if d = 738893 then ''2024-01-08''
      else if d = 738894 then ''2024-01-09''
      else if d = 738895 then ''2024-01-10''
      else if d = 738896 then ''2024-01-11''
      else ''other'')"

definition sample_env :: env where
  "sample_env =
     \<lparr>net = (\<lambda>url. FetchRefused),
      api = (\<lambda>method rq. ApiNull),
      clock = 1704880000,
      local_today = 738895,
      utc_today = 738895,
      isoformat = sample_isoformat,
      mkdir_fails = (\<lambda>p. False),
      disk_free = (\<lambda>p fs. 1073741824),
      notify_fails = False,
      json_parses = (\<lambda>b. b = ''{}''),
      csv_reader = (\<lambda>b. ([], None))\<rparr>"

definition sample_report :: report where
  "sample_report =
     \<lparr>report_id = ''abc123'',
      report_file = ''2024-01-09-scan_http.csv'',
      report_type = ''scan_http'',
      report_timestamp = ''2024-01-09''\<rparr>"

definition empty_world :: world where
  "empty_world = \<lparr>files = Map.empty, out = []\<rparr>"

definition sample_manager :: manager where
  "sample_manager =
     \<lparr>files = Map.empty, out = [], basedir = ''/var/tmp/reports'',
      threshold = rm_threshold None, has_notifier = False, count = 0\<rparr>"

text \<open>The API calls among some actions: the method and the \<^verbatim>\<open>date\<close> of each request.\<close>

definition api_calls :: "action list \<Rightarrow> (string \<times> string) list" where
  "api_calls acts =
     concat (map (\<lambda>a. case a of ApiCall m rq \<Rightarrow> [(m, req_date rq)] | _ \<Rightarrow> []) acts)"

definition sample_cef_logger :: "cef_mapping logger" where
  "sample_cef_logger =
     \<lparr>state_directory = ''/state'',
      mapping = [''scan_http'' \<mapsto> [''ip'' \<mapsto> ''src'']],
      run_mode = ''run'',
      config = [(''general'', Map.empty), (''input'', [''facility'' \<mapsto> ''user''])]\<rparr>"

definition sample_ecs_logger :: "ecs_mapping logger" where
  "sample_ecs_logger =
     \<lparr>state_directory = ''/state'',
      mapping = [''ip'' \<mapsto> ''source.ip''],
      run_mode = ''run'',
      config = [(''general'', Map.empty), (''input'', [''log'' \<mapsto> ''/var/log/ecs.json''])]\<rparr>"

text \<open>
  A report file of one column and one row, and a reader that reads it so (it reads no
  row from any other content, as from a file of a header line alone).
\<close>

definition sample_csv :: string where
  "sample_csv = ''ip'' @ [CHR 0x0A] @ ''192.0.2.1'' @ [CHR 0x0A]"

definition sample_csv_reader :: "string \<Rightarrow> row list \<times> error option" where
  "sample_csv_reader b = (if b = sample_csv then ([[(''ip'', ''192.0.2.1'')]], None) else ([], None))"






section \<open>Helper facts\<close>

lemma match_directive_args_name:
  "match_directive_args mapped = Some (g1, g2) \<Longrightarrow> match_directive mapped = Some g1"
  by (auto simp: match_directive_args_def match_directive_def Let_def split: list.splits if_splits)

lemma match_directive_None_args:
  "match_directive mapped = None \<Longrightarrow> match_directive_args mapped = None"
  by (auto simp: match_directive_args_def match_directive_def Let_def split: list.splits if_splits)

lemma mapped_target_eq:
  "mapped_target table rtype field =
     (case table field of
        Some t \<Rightarrow> t
      | None \<Rightarrow> (case table (rtype @ ''.'' @ field) of
                    Some t \<Rightarrow> t
                  | None \<Rightarrow> ''extra.'' @ field))"
  by (simp add: mapped_target_def Let_def split: option.splits)

section \<open>The structured encoding: resolution order and directives\<close>

text \<open>
  C2, as the code has it. The key of a field is looked up under the bare field name
  first, then under \<open>type.field\<close>, and is \<open>extra.field\<close> when the table has neither: the
  second lookup of \<^verbatim>\<open>_stream_events\<close> overwrites the first. A non-empty value whose key
  is no directive is stored under that key.
\<close>

theorem mapping_resolution_order:
  "mapped_target table rtype field =
     (case table field of
        Some t \<Rightarrow> t
      | None \<Rightarrow> (case table (rtype @ ''.'' @ field) of
                    Some t \<Rightarrow> t
                  | None \<Rightarrow> ''extra.'' @ field))
   \<and> (v \<noteq> [] \<and> match_directive (mapped_target table rtype field) = None \<longrightarrow>
        ecs_field table rtype event (field, v)
          = Inr (AList.update (mapped_target table rtype field) (Str v) event))"
  by (auto simp: mapped_target_eq ecs_field_def Let_def match_directive_None_args split: option.splits)

theorem mapping_resolution_order_witness:
  "mapped_target [''mytype.ip'' \<mapsto> ''source.ip'', ''ip'' \<mapsto> ''other.ip''] ''mytype'' ''ip'' = ''other.ip''
   \<and> mapped_target [''mytype.ip'' \<mapsto> ''source.ip''] ''mytype'' ''ip'' = ''source.ip''
   \<and> mapped_target [''mytype.ip'' \<mapsto> ''source.ip''] ''scan'' ''ip'' = ''extra.ip''
   \<and> ecs_field [''mytype.ip'' \<mapsto> ''source.ip''] ''mytype'' [] (''ip'', ''192.0.2.1'')
        = Inr [(''source.ip'', Str ''192.0.2.1'')]"
  using mapping_resolution_order [of "[''mytype.ip'' \<mapsto> ''source.ip'', ''ip'' \<mapsto> ''other.ip'']" "''mytype''" "''ip''" "''x''" "[]"]
    mapping_resolution_order [of "[''mytype.ip'' \<mapsto> ''source.ip'']" "''mytype''" "''ip''" "''192.0.2.1''" "[]"]
    mapping_resolution_order [of "[''mytype.ip'' \<mapsto> ''source.ip'']" "''scan''" "''ip''" "''x''" "[]"]
  by (simp add: match_directive_def)

text \<open>
  C2 as the spec states it fails: with both a \<open>mytype.ip\<close> and an \<open>ip\<close> entry, a row of
  type \<open>mytype\<close> gets the target of the bare \<open>ip\<close> entry.
\<close>

theorem type_entry_first_counterexample:
  "mapped_target [''mytype.ip'' \<mapsto> ''source.ip'', ''ip'' \<mapsto> ''other.ip''] ''mytype'' ''ip'' \<noteq> ''source.ip''
   \<and> ecs_row [''mytype.ip'' \<mapsto> ''source.ip'', ''ip'' \<mapsto> ''other.ip''] ''mytype'' [(''ip'', ''192.0.2.1'')]
        = Inr [(''other.ip'', Str ''192.0.2.1''), (''data_stream.dataset'', Str ''mytype'')]"
  by (simp add: mapped_target_def ecs_row_def ecs_field_def match_directive_args_def match_directive_def Let_def)

text \<open>
  C6, as the code has it. A table value of directive syntax (\<open>&name\<close> or \<open>&name(args)\<close>)
  whose name is not in the registry drops the field: the event is unchanged and nothing
  is raised.
\<close>

theorem unknown_directive_dropped:
  "match_directive (mapped_target table rtype field) = Some name \<Longrightarrow> ecs_functions name = None
   \<Longrightarrow> ecs_field table rtype event (field, v) = Inr event"
  by (auto simp: ecs_field_def Let_def split: option.splits dest: match_directive_args_name)

theorem unknown_directive_dropped_witness:
  "match_directive (mapped_target [''ip'' \<mapsto> ''&lookup(geo)''] ''scan'' ''ip'') = Some ''lookup''
   \<and> ecs_functions ''lookup'' = None
   \<and> ecs_field [''ip'' \<mapsto> ''&lookup(geo)''] ''scan'' [] (''ip'', ''192.0.2.1'') = Inr []"
proof -
  have a: "match_directive (mapped_target [''ip'' \<mapsto> ''&lookup(geo)''] ''scan'' ''ip'') = Some ''lookup''"
    by (simp add: mapped_target_def match_directive_def Let_def)
  have b: "ecs_functions ''lookup'' = None"
    by (simp add: ecs_functions_def)
  show ?thesis using a b unknown_directive_dropped [OF a b, of "[]" "''192.0.2.1''"] by simp
qed

text \<open>
  C6 as the spec states it fails: for the unregistered directive \<open>&lookup(geo)\<close> the
  event of the row has no pair under the key \<open>&lookup(geo)\<close>; it has the dataset tag only.
\<close>

theorem unknown_directive_literal_counterexample:
  "ecs_row [''ip'' \<mapsto> ''&lookup(geo)''] ''scan'' [(''ip'', ''192.0.2.1'')]
     = Inr [(''data_stream.dataset'', Str ''scan'')]
   \<and> ecs_row [''ip'' \<mapsto> ''&lookup(geo)''] ''scan'' [(''ip'', ''192.0.2.1'')]
     \<noteq> Inr [(''&lookup(geo)'', Str ''192.0.2.1''), (''data_stream.dataset'', Str ''scan'')]
   \<and> ecs_row [''ip'' \<mapsto> ''&lookup''] ''scan'' [(''ip'', ''192.0.2.1'')]
     = Inr [(''data_stream.dataset'', Str ''scan'')]"
  by (simp add: mapped_target_def ecs_row_def ecs_field_def match_directive_args_def match_directive_def ecs_functions_def Let_def)

text \<open>
  C7. A non-empty value under the directive \<open>&labels(category)\<close> sets the entry
  \<open>category\<close> of the event's \<open>labels\<close> dict to the value (creating the dict when the event
  has none) and touches no other key; under \<open>&tags\<close> it sets the event's \<open>tags\<close> to the
  pieces of the value cut at every comma and semicolon, in order, and \<open>a,b;c\<close> gives
  \<open>a\<close>, \<open>b\<close>, \<open>c\<close>.
\<close>

theorem directive_dispatch:
  "(mapped_target table rtype field = ''&labels(category)'' \<and> v \<noteq> [] \<and> map_of event ''labels'' = None
      \<longrightarrow> ecs_field table rtype event (field, v)
            = Inr (AList.update ''labels'' (Dict [(''category'', v)]) event))
   \<and> (mapped_target table rtype field = ''&labels(category)'' \<and> v \<noteq> [] \<and> map_of event ''labels'' = Some (Dict d)
      \<longrightarrow> ecs_field table rtype event (field, v)
            = Inr (AList.update ''labels'' (Dict (AList.update ''category'' v d)) event))
   \<and> (mapped_target table rtype field = ''&tags'' \<and> v \<noteq> []
      \<longrightarrow> ecs_field table rtype event (field, v)
            = Inr (AList.update ''tags'' (StrList (split_on is_comma_or_semicolon v)) event))
   \<and> split_on is_comma_or_semicolon ''a,b;c'' = [''a'', ''b'', ''c'']"
  by (simp add: ecs_field_def match_directive_args_def match_directive_def ecs_functions_def
      set_labels_def set_tags_def is_comma_def is_comma_or_semicolon_def Let_def update_conv')

theorem directive_dispatch_witness:
  "ecs_field [''family'' \<mapsto> ''&labels(category)''] ''scan'' [] (''family'', ''malware'')
     = Inr [(''labels'', Dict [(''category'', ''malware'')])]
   \<and> ecs_field [''family'' \<mapsto> ''&labels(category)''] ''scan'' [(''labels'', Dict [(''kind'', ''x'')])] (''family'', ''malware'')
     = Inr [(''labels'', Dict [(''kind'', ''x''), (''category'', ''malware'')])]
   \<and> ecs_field [''tag'' \<mapsto> ''&tags''] ''scan'' [] (''tag'', ''a,b;c'')
     = Inr [(''tags'', StrList [''a'', ''b'', ''c''])]"
  using directive_dispatch [of "[''family'' \<mapsto> ''&labels(category)'']" "''scan''" "''family''" "''malware''" "[]"]
    directive_dispatch [of "[''family'' \<mapsto> ''&labels(category)'']" "''scan''" "''family''" "''malware''" "[(''labels'', Dict [(''kind'', ''x'')])]" "[(''kind'', ''x'')]"]
    directive_dispatch [of "[''tag'' \<mapsto> ''&tags'']" "''scan''" "''tag''" "''a,b;c''" "[]"]
  by (simp add: mapped_target_def Let_def)

section \<open>Mapping refresh\<close>

lemma path_join_dot_neq: "path_join a (CHR ''.'' # f) \<noteq> path_join a f"
proof -
  have "length (path_join a (CHR ''.'' # f)) > length (path_join a f)"
    by (auto simp: path_join_def)
  then show ?thesis by auto
qed

lemma map_tmp_neq_map_path: "map_tmp sd \<noteq> map_path sd"
  by (simp add: map_tmp_def map_path_def path_join_dot_neq)


text \<open>
  C8. \<^verbatim>\<open>update\<close> fetches the mapping document to the dot-prefixed \<open>map_tmp\<close>. When the
  fetch returns a non-empty document that parses as JSON, the status is true, the active
  mapping file \<open>map_path\<close> holds the fetched document and the temporary file is gone (it was
  renamed). In every other case (the fetch raises, the document is empty or does not
  parse) the status is false, the active mapping file is what it was, and the temporary
  file is removed. No other path changes.
\<close>

theorem mapping_refresh:
  "(net env mapurl = FetchDone b \<and> b \<noteq> [] \<and> json_parses env b \<longrightarrow>
      fst (update mapurl env sd w)
      \<and> files (snd (update mapurl env sd w)) (map_path sd) = Some \<lparr>content = b, mtime = clock env\<rparr>
      \<and> files (snd (update mapurl env sd w)) (map_tmp sd) = None)
   \<and> (\<not> (\<exists>c. net env mapurl = FetchDone c \<and> c \<noteq> [] \<and> json_parses env c) \<longrightarrow>
      \<not> fst (update mapurl env sd w)
      \<and> files (snd (update mapurl env sd w)) (map_path sd) = files w (map_path sd)
      \<and> files (snd (update mapurl env sd w)) (map_tmp sd) = None)
   \<and> (p \<noteq> map_path sd \<and> p \<noteq> map_tmp sd \<longrightarrow> files (snd (update mapurl env sd w)) p = files w p)
   \<and> (\<exists>rest. out (snd (update mapurl env sd w)) = out w @ Retrieve mapurl (map_tmp sd) # rest)"
  using map_tmp_neq_map_path [of sd]
  by (cases "net env mapurl")
     (auto simp: update_def update_fetch_def urlretrieve_def emit_def rename_def Let_def)

theorem mapping_refresh_witness:
  "fst (update CEF_MAPURL (sample_env\<lparr>net := (\<lambda>u. FetchDone ''{}'')\<rparr>) ''/state''
          \<lparr>files = [map_path ''/state'' \<mapsto> \<lparr>content = ''old'', mtime = 5\<rparr>], out = []\<rparr>)
   \<and> files (snd (update CEF_MAPURL (sample_env\<lparr>net := (\<lambda>u. FetchDone ''{}'')\<rparr>) ''/state''
          \<lparr>files = [map_path ''/state'' \<mapsto> \<lparr>content = ''old'', mtime = 5\<rparr>], out = []\<rparr>))
        (map_path ''/state'') = Some \<lparr>content = ''{}'', mtime = 1704880000\<rparr>
   \<and> \<not> fst (update ECS_MAPURL (sample_env\<lparr>net := (\<lambda>u. FetchDone ''<html>'')\<rparr>) ''/state''
          \<lparr>files = [map_path ''/state'' \<mapsto> \<lparr>content = ''old'', mtime = 5\<rparr>], out = []\<rparr>)
   \<and> files (snd (update ECS_MAPURL (sample_env\<lparr>net := (\<lambda>u. FetchDone ''<html>'')\<rparr>) ''/state''
          \<lparr>files = [map_path ''/state'' \<mapsto> \<lparr>content = ''old'', mtime = 5\<rparr>], out = []\<rparr>))
        (map_path ''/state'') = Some \<lparr>content = ''old'', mtime = 5\<rparr>
   \<and> files (snd (update ECS_MAPURL (sample_env\<lparr>net := (\<lambda>u. FetchDone ''<html>'')\<rparr>) ''/state''
          \<lparr>files = [map_path ''/state'' \<mapsto> \<lparr>content = ''old'', mtime = 5\<rparr>], out = []\<rparr>))
        (map_tmp ''/state'') = None"
  using mapping_refresh [of "sample_env\<lparr>net := (\<lambda>u. FetchDone ''{}'')\<rparr>" CEF_MAPURL "''{}''" "''/state''"
      "\<lparr>files = [map_path ''/state'' \<mapsto> \<lparr>content = ''old'', mtime = 5\<rparr>], out = []\<rparr>" "[]"]
    mapping_refresh [of "sample_env\<lparr>net := (\<lambda>u. FetchDone ''<html>'')\<rparr>" ECS_MAPURL "''{}''" "''/state''"
      "\<lparr>files = [map_path ''/state'' \<mapsto> \<lparr>content = ''old'', mtime = 5\<rparr>], out = []\<rparr>" "[]"]
  by (simp add: sample_env_def)

section \<open>The disk guard of the report manager\<close>

lemma rm_download_all_append:
  "rm_download_all env d (xs @ ys) m =
     (case rm_download_all env d xs m of
        (None, m1) \<Rightarrow> rm_download_all env d ys m1
      | (Some e, m1) \<Rightarrow> (Some e, m1))"
  by (induction xs arbitrary: m) (auto simp: die_def)

lemma rm_run_days_append:
  "rm_run_days env (xs @ ys) m =
     (case rm_run_days env xs m of
        (None, m1) \<Rightarrow> rm_run_days env ys m1
      | (Some e, m1) \<Rightarrow> (Some e, m1))"
  by (induction xs arbitrary: m) (auto split: prod.splits option.splits)

text \<open>
  C5, as the code has it. Before each \<^verbatim>\<open>_download\<close> the loop of \<^verbatim>\<open>_sync\<close> reads the free
  space of the destination directory; when it is below the threshold the run dies with
  \<open>SystemExit\<close> before the report at hand and the reports after it are fetched: nothing
  but the fatal message is added to what the earlier reports of the cycle left. When the
  space is low at the first check, no report of the cycle is fetched. The exit leaves
  \<^verbatim>\<open>run\<close> with the days after it not synced, and the default threshold is 512 MB.
\<close>

theorem disk_guard:
  "(disk_free env d (files m) < threshold m \<longrightarrow>
      rm_download_all env d (r # rs) m
        = (Some (SystemExit InsufficientDiskSpace), emit (SyslogMsg (Died InsufficientDiskSpace)) m))
   \<and> (rm_download_all env d pre m = (None, m1) \<and> disk_free env d (files m1) < threshold m1 \<longrightarrow>
      rm_download_all env d (pre @ r # post) m
        = (Some (SystemExit InsufficientDiskSpace), emit (SyslogMsg (Died InsufficientDiskSpace)) m1))
   \<and> (rm_mkdirs env (basedir m) (date_folders date) = Inr d
        \<and> api env ''reports/list'' \<lparr>req_date = date, req_reports = None\<rparr> = ApiReports (r # rs)
        \<and> disk_free env d (files m) < threshold m \<longrightarrow>
      rm_sync env date m
        = (Some (SystemExit InsufficientDiskSpace),
           emit (SyslogMsg (Died InsufficientDiskSpace))
             (emit (ApiCall ''reports/list'' \<lparr>req_date = date, req_reports = None\<rparr>) m)))
   \<and> (rev [1..days] = before @ i # after
        \<and> rm_run_days env before m = (None, m2)
        \<and> rm_sync env (isoformat env (utc_today env - i)) m2 = (Some e, m3) \<longrightarrow>
      rm_run env days m = (Some e, m3))
   \<and> rm_threshold None = 512 * 1024 * 1024"
  by (auto simp: rm_download_all_append rm_run_days_append die_def rm_sync_def rm_run_def
        emit_def Let_def rm_threshold_def)

theorem disk_guard_witness:
  "rm_run (sample_env\<lparr>api := (\<lambda>method rq. ApiReports [sample_report]),
                        net := (\<lambda>url. FetchDone ''data''),
                        disk_free := (\<lambda>p fs. 100 * 1024 * 1024)\<rparr>) 2 sample_manager
     = (Some (SystemExit InsufficientDiskSpace),
        emit (SyslogMsg (Died InsufficientDiskSpace))
          (emit (ApiCall ''reports/list'' \<lparr>req_date = ''2024-01-08'', req_reports = None\<rparr>)
             sample_manager))
   \<and> threshold sample_manager = 536870912"
proof -
  let ?env = "sample_env\<lparr>api := (\<lambda>method rq. ApiReports [sample_report]),
                        net := (\<lambda>url. FetchDone ''data''),
                        disk_free := (\<lambda>p fs. 100 * 1024 * 1024)\<rparr>"
  have dirs: "rm_mkdirs ?env (basedir sample_manager) (date_folders ''2024-01-08'')
                = Inr ''/var/tmp/reports/2024/01/08''"
    by (simp add: sample_env_def sample_manager_def date_folders_def path_join_def)
  have thr: "threshold sample_manager = 536870912"
    using disk_guard [where env = ?env]
    by (simp add: sample_manager_def)
  have low: "disk_free ?env ''/var/tmp/reports/2024/01/08'' (files sample_manager)
               < threshold sample_manager"
    by (simp add: thr sample_env_def)
  have lst: "api ?env ''reports/list'' \<lparr>req_date = ''2024-01-08'', req_reports = None\<rparr>
               = ApiReports (sample_report # [])"
    by (simp add: sample_env_def)
  have sync: "rm_sync ?env ''2024-01-08'' sample_manager
     = (Some (SystemExit InsufficientDiskSpace),
        emit (SyslogMsg (Died InsufficientDiskSpace))
          (emit (ApiCall ''reports/list'' \<lparr>req_date = ''2024-01-08'', req_reports = None\<rparr>)
             sample_manager))"
    using disk_guard [where env = ?env and m = sample_manager and date = "''2024-01-08''"
        and d = "''/var/tmp/reports/2024/01/08''" and r = sample_report and rs = "[]"]
      dirs low lst by blast
  have days: "rev [1..2] = [] @ 2 # [1::int]"
    by (simp add: upto.simps)
  have iso: "isoformat ?env (utc_today ?env - 2) = ''2024-01-08''"
    by (simp add: sample_env_def sample_isoformat_def)
  have "rm_run ?env 2 sample_manager
     = (Some (SystemExit InsufficientDiskSpace),
        emit (SyslogMsg (Died InsufficientDiskSpace))
          (emit (ApiCall ''reports/list'' \<lparr>req_date = ''2024-01-08'', req_reports = None\<rparr>)
             sample_manager))"
    using disk_guard [where env = ?env and days = 2 and before = "[]" and i = 2 and after = "[1]"
        and m = sample_manager and ?m2.0 = sample_manager
        and e = "SystemExit InsufficientDiskSpace"]
      days sync iso by simp
  with thr show ?thesis by simp
qed

text \<open>
  C5 as the spec states it fails: with two listed reports and a disk that is full once
  the first is stored, the first report is fetched and counted in that cycle before the
  run dies at the check of the second.
\<close>

theorem disk_guard_after_download_counterexample:
  "fst (rm_sync
         (sample_env\<lparr>api := (\<lambda>method rq. ApiReports
                              [sample_report\<lparr>report_id := ''id-a'', report_file := ''a.csv''\<rparr>,
                               sample_report\<lparr>report_id := ''id-b'', report_file := ''b.csv''\<rparr>]),
                      net := (\<lambda>url. FetchDone ''data''),
                      disk_free := (\<lambda>p fs. if fs ''/var/tmp/reports/2024/01/08/a.csv'' = None
                                            then 1024 * 1024 * 1024 else 100 * 1024 * 1024)\<rparr>)
         ''2024-01-08'' sample_manager)
     = Some (SystemExit InsufficientDiskSpace)
   \<and> count (snd (rm_sync
         (sample_env\<lparr>api := (\<lambda>method rq. ApiReports
                              [sample_report\<lparr>report_id := ''id-a'', report_file := ''a.csv''\<rparr>,
                               sample_report\<lparr>report_id := ''id-b'', report_file := ''b.csv''\<rparr>]),
                      net := (\<lambda>url. FetchDone ''data''),
                      disk_free := (\<lambda>p fs. if fs ''/var/tmp/reports/2024/01/08/a.csv'' = None
                                            then 1024 * 1024 * 1024 else 100 * 1024 * 1024)\<rparr>)
         ''2024-01-08'' sample_manager)) = 1
   \<and> out (snd (rm_sync
         (sample_env\<lparr>api := (\<lambda>method rq. ApiReports
                              [sample_report\<lparr>report_id := ''id-a'', report_file := ''a.csv''\<rparr>,
                               sample_report\<lparr>report_id := ''id-b'', report_file := ''b.csv''\<rparr>]),
                      net := (\<lambda>url. FetchDone ''data''),
                      disk_free := (\<lambda>p fs. if fs ''/var/tmp/reports/2024/01/08/a.csv'' = None
                                            then 1024 * 1024 * 1024 else 100 * 1024 * 1024)\<rparr>)
         ''2024-01-08'' sample_manager))
     = [ApiCall ''reports/list'' \<lparr>req_date = ''2024-01-08'', req_reports = None\<rparr>,
        Retrieve ''https://dl.shadowserver.org/id-a'' ''/var/tmp/reports/2024/01/08/.a.csv'',
        SyslogMsg (Died InsufficientDiskSpace)]"
  by (simp add: rm_sync_def date_folders_def path_join_def rm_download_def rm_tmp_def rm_dst_def
      urlretrieve_def getsize_def rename_def emit_def die_def DLROOT_def Let_def
      sample_env_def sample_manager_def sample_report_def rm_threshold_def)

section \<open>Downloads\<close>




section \<open>What the loggers' loops leave and log\<close>

lemma logger_download_other:
  "q \<noteq> p \<Longrightarrow> files (snd (logger_download env r p w)) q = files w q"
  by (cases "net env (DLROOT @ report_id r)")
     (auto simp: logger_download_def download_handler_def urlretrieve_def getsize_def emit_def Let_def
        split: option.splits)

lemma cef_rows_files: "files (snd (cef_rows fmap dev rtype rows w)) = files w"
  by (induction rows arbitrary: w) (auto simp: emit_def split: sum.splits)

lemma cef_stream_events_files: "files (snd (cef_stream_events env mp r p dev w)) = files w"
proof -
  have "files (snd (cef_rows fmap dev rtype rows w)) = files w" for fmap rtype rows
    by (rule cef_rows_files)
  then show ?thesis
    by (auto simp: cef_stream_events_def emit_def Let_def
          split: option.splits prod.splits) (metis snd_conv)+
qed

lemma ecs_rows_files: "files (snd (ecs_rows table h rtype rows w)) = files w"
  by (induction rows arbitrary: w) (auto simp: emit_def split: sum.splits)

lemma ecs_stream_events_files: "files (snd (ecs_stream_events env table h r p w)) = files w"
proof -
  have "files (snd (ecs_rows table h rtype rows w)) = files w" for rtype rows
    by (rule ecs_rows_files)
  then show ?thesis
    by (auto simp: ecs_stream_events_def emit_def Let_def
          split: option.splits prod.splits) (metis snd_conv)+
qed

lemma cef_report_present:
  "files w (path_join dst (report_file r)) \<noteq> None \<Longrightarrow>
     cef_report env mp types dst dev r w = (None, w)"
  by (simp add: cef_report_def Let_def)

lemma ecs_report_present:
  "files w (path_join dst (report_file r)) \<noteq> None \<Longrightarrow>
     ecs_report env table h types dst r w = (None, w)"
  by (simp add: ecs_report_def Let_def)

lemma cef_report_other:
  "q \<noteq> path_join dst (report_file r) \<Longrightarrow>
     files (snd (cef_report env mp types dst dev r w)) q = files w q"
  using logger_download_other [of q "path_join dst (report_file r)" env r w]
    cef_stream_events_files [of env mp r "path_join dst (report_file r)" dev]
  by (auto simp: cef_report_def Let_def emit_def truncate_file_def
        split: prod.splits sum.splits bool.splits option.splits) (metis snd_conv)+

lemma ecs_report_other:
  "q \<noteq> path_join dst (report_file r) \<Longrightarrow>
     files (snd (ecs_report env table h types dst r w)) q = files w q"
  using logger_download_other [of q "path_join dst (report_file r)" env r w]
    ecs_stream_events_files [of env table h r "path_join dst (report_file r)"]
  by (auto simp: ecs_report_def Let_def emit_def truncate_file_def
        split: prod.splits sum.splits bool.splits option.splits) (metis snd_conv)+

lemma cef_report_keeps:
  "files w q \<noteq> None \<Longrightarrow> files (snd (cef_report env mp types dst dev r w)) q \<noteq> None"
  by (cases "q = path_join dst (report_file r)")
     (simp_all add: cef_report_present cef_report_other)

lemma ecs_report_keeps:
  "files w q \<noteq> None \<Longrightarrow> files (snd (ecs_report env table h types dst r w)) q \<noteq> None"
  by (cases "q = path_join dst (report_file r)")
     (simp_all add: ecs_report_present ecs_report_other)

lemma cef_reports_skip_present:
  "files w p \<noteq> None \<Longrightarrow>
     cef_reports env mp types dst dev reports w
       = cef_reports env mp types dst dev
           (filter (\<lambda>r. path_join dst (report_file r) \<noteq> p) reports) w"
proof (induction reports arbitrary: w)
  case Nil
  then show ?case by simp
next
  case (Cons r rs)
  show ?case
  proof (cases "path_join dst (report_file r) = p")
    case True
    with Cons show ?thesis by (simp add: cef_report_present)
  next
    case False
    obtain st w1 where step: "cef_report env mp types dst dev r w = (st, w1)"
      by (cases "cef_report env mp types dst dev r w")
    have "files w1 p \<noteq> None"
      using cef_report_keeps [OF Cons.prems, of env mp types dst dev r] step by simp
    then show ?thesis using False step Cons.IH [of w1] by (auto split: option.splits)
  qed
qed

lemma ecs_reports_skip_present:
  "files w p \<noteq> None \<Longrightarrow>
     ecs_reports env table h types dst reports w
       = ecs_reports env table h types dst
           (filter (\<lambda>r. path_join dst (report_file r) \<noteq> p) reports) w"
proof (induction reports arbitrary: w)
  case Nil
  then show ?case by simp
next
  case (Cons r rs)
  show ?case
  proof (cases "path_join dst (report_file r) = p")
    case True
    with Cons show ?thesis by (simp add: ecs_report_present)
  next
    case False
    obtain st w1 where step: "ecs_report env table h types dst r w = (st, w1)"
      by (cases "ecs_report env table h types dst r w")
    have "files w1 p \<noteq> None"
      using ecs_report_keeps [OF Cons.prems, of env table h types dst r] step by simp
    then show ?thesis using False step Cons.IH [of w1] by (auto split: option.splits)
  qed
qed

lemma api_calls_append: "api_calls (xs @ ys) = api_calls xs @ api_calls ys"
  by (simp add: api_calls_def)

lemma logger_download_out:
  "\<exists>new. out (snd (logger_download env r p w)) = out w @ Retrieve (DLROOT @ report_id r) p # new
         \<and> api_calls new = []"
  by (cases "net env (DLROOT @ report_id r)")
     (auto simp: logger_download_def download_handler_def urlretrieve_def getsize_def emit_def
        Let_def api_calls_def split: option.splits)

lemma cef_rows_out:
  "\<exists>new. out (snd (cef_rows fmap dev rtype rows w)) = out w @ new \<and> api_calls new = []"
proof (induction rows arbitrary: w)
  case Nil
  then show ?case by (simp add: api_calls_def)
next
  case (Cons r rs)
  show ?case
  proof (cases "cef_row fmap dev rtype r")
    case (Inl e)
    then show ?thesis by (simp add: api_calls_def)
  next
    case (Inr line)
    obtain new where "out (snd (cef_rows fmap dev rtype rs (emit (Syslog line) w)))
        = out (emit (Syslog line) w) @ new" and "api_calls new = []"
      using Cons.IH by blast
    then have "out (snd (cef_rows fmap dev rtype (r # rs) w)) = out w @ (Syslog line # new)
        \<and> api_calls (Syslog line # new) = []"
      using Inr by (simp add: emit_def api_calls_def)
    then show ?thesis by blast
  qed
qed

lemma ecs_rows_out:
  "\<exists>new. out (snd (ecs_rows table h rtype rows w)) = out w @ new \<and> api_calls new = []"
proof (induction rows arbitrary: w)
  case Nil
  then show ?case by (simp add: api_calls_def)
next
  case (Cons r rs)
  show ?case
  proof (cases "ecs_row table rtype r")
    case (Inl e)
    then show ?thesis by (simp add: api_calls_def)
  next
    case (Inr event)
    obtain new where "out (snd (ecs_rows table h rtype rs (emit (LogInfo h event) w)))
        = out (emit (LogInfo h event) w) @ new" and "api_calls new = []"
      using Cons.IH by blast
    then have "out (snd (ecs_rows table h rtype (r # rs) w)) = out w @ (LogInfo h event # new)
        \<and> api_calls (LogInfo h event # new) = []"
      using Inr by (simp add: emit_def api_calls_def)
    then show ?thesis by blast
  qed
qed

lemma cef_stream_events_out:
  "\<exists>new. out (snd (cef_stream_events env mp r p dev w)) = out w @ new \<and> api_calls new = []"
proof (cases "files w p")
  case None
  then show ?thesis by (simp add: cef_stream_events_def api_calls_def)
next
  case (Some f)
  show ?thesis
  proof (cases "mp (report_type r)")
    case None
    with Some show ?thesis by (simp add: cef_stream_events_def api_calls_def)
  next
    case (Some fmap)
    obtain rows err where rd: "csv_reader env (content f) = (rows, err)"
      by (cases "csv_reader env (content f)")
    obtain st w1 where lp: "cef_rows fmap dev (report_type r) rows w = (st, w1)"
      by (cases "cef_rows fmap dev (report_type r) rows w")
    obtain new where new: "out w1 = out w @ new" "api_calls new = []"
      using cef_rows_out [of fmap dev "report_type r" rows w] lp by auto
    have "out (snd (cef_stream_events env mp r p dev w)) = out w @ new
          \<or> out (snd (cef_stream_events env mp r p dev w))
              = out w @ (new @ [Print (InfoProcessed (length rows) (report_file r))])"
      using \<open>files w p = Some f\<close> Some rd lp new
      by (auto simp: cef_stream_events_def emit_def split: option.splits)
    moreover have "api_calls (new @ [Print (InfoProcessed (length rows) (report_file r))]) = []"
      using new by (simp add: api_calls_def)
    ultimately show ?thesis using new by blast
  qed
qed

lemma ecs_stream_events_out:
  "\<exists>new. out (snd (ecs_stream_events env table h r p w)) = out w @ new \<and> api_calls new = []"
proof (cases "files w p")
  case None
  then show ?thesis by (simp add: ecs_stream_events_def api_calls_def)
next
  case (Some f)
  obtain rows err where rd: "csv_reader env (content f) = (rows, err)"
    by (cases "csv_reader env (content f)")
  obtain st w1 where lp: "ecs_rows table h (report_type r) rows w = (st, w1)"
    by (cases "ecs_rows table h (report_type r) rows w")
  obtain new where new: "out w1 = out w @ new" "api_calls new = []"
    using ecs_rows_out [of table h "report_type r" rows w] lp by auto
  have "out (snd (ecs_stream_events env table h r p w)) = out w @ new
        \<or> out (snd (ecs_stream_events env table h r p w))
            = out w @ (new @ [Print (InfoProcessed (length rows) (report_file r))])"
    using Some rd lp new
    by (auto simp: ecs_stream_events_def emit_def split: option.splits)
  moreover have "api_calls (new @ [Print (InfoProcessed (length rows) (report_file r))]) = []"
    using new by (simp add: api_calls_def)
  ultimately show ?thesis using new by blast
qed

lemma ecs_report_fetches:
  assumes "\<not> type_filtered types r" and "files w (path_join dst (report_file r)) = None"
  shows "\<exists>rest. out (snd (ecs_report env table h types dst r w))
                  = out w @ Retrieve (DLROOT @ report_id r) (path_join dst (report_file r)) # rest
               \<and> api_calls rest = []"
proof -
  let ?p = "path_join dst (report_file r)"
  obtain res w1 where dl: "logger_download env r ?p w = (res, w1)"
    by (cases "logger_download env r ?p w")
  obtain new where n1: "out w1 = out w @ Retrieve (DLROOT @ report_id r) ?p # new"
      and a1: "api_calls new = []"
    using logger_download_out [of env r ?p w] dl by auto
  show ?thesis
  proof (cases res)
    case (Inl e)
    then show ?thesis using assms dl n1 a1 by (simp add: ecs_report_def)
  next
    case (Inr ok)
    show ?thesis
    proof (cases ok)
      case False
      then show ?thesis using assms dl n1 a1 Inr by (simp add: ecs_report_def)
    next
      case True
      obtain st w2 where se: "ecs_stream_events env table h r ?p w1 = (st, w2)"
        by (cases "ecs_stream_events env table h r ?p w1")
      obtain new2 where n2: "out w2 = out w1 @ new2" and a2: "api_calls new2 = []"
        using ecs_stream_events_out [of env table h r ?p w1] se by auto
      have "out (snd (ecs_report env table h types dst r w)) = out w2"
        using assms dl Inr True se by (auto simp: ecs_report_def split: option.splits)
      then have "out (snd (ecs_report env table h types dst r w))
                   = out w @ Retrieve (DLROOT @ report_id r) ?p # (new @ new2)"
        using n1 n2 by simp
      moreover have "api_calls (new @ new2) = []"
        using a1 a2 by (simp add: api_calls_append)
      ultimately show ?thesis by blast
    qed
  qed
qed

lemma ecs_report_out:
  "\<exists>new. out (snd (ecs_report env table h types dst r w)) = out w @ new \<and> api_calls new = []"
proof (cases "\<not> type_filtered types r \<and> files w (path_join dst (report_file r)) = None")
  case True
  then obtain rest where
    "out (snd (ecs_report env table h types dst r w))
       = out w @ Retrieve (DLROOT @ report_id r) (path_join dst (report_file r)) # rest"
    "api_calls rest = []"
    using ecs_report_fetches [of types r w dst env table h] by blast
  then have "out (snd (ecs_report env table h types dst r w))
       = out w @ (Retrieve (DLROOT @ report_id r) (path_join dst (report_file r)) # rest)
     \<and> api_calls (Retrieve (DLROOT @ report_id r) (path_join dst (report_file r)) # rest) = []"
    by (simp add: api_calls_def)
  then show ?thesis by blast
next
  case False
  then have "ecs_report env table h types dst r w = (None, w)"
    by (auto simp: ecs_report_def Let_def)
  then show ?thesis by (simp add: api_calls_def)
qed

lemma ecs_reports_out:
  "\<exists>new. out (snd (ecs_reports env table h types dst reports w)) = out w @ new
         \<and> api_calls new = []"
proof (induction reports arbitrary: w)
  case Nil
  then show ?case by (simp add: api_calls_def)
next
  case (Cons r rs)
  obtain st w1 where step: "ecs_report env table h types dst r w = (st, w1)"
    by (cases "ecs_report env table h types dst r w")
  obtain new where n1: "out w1 = out w @ new" and a1: "api_calls new = []"
    using ecs_report_out [of env table h types dst r w] step by auto
  show ?case
  proof (cases st)
    case (Some e)
    then show ?thesis using step n1 a1 by simp
  next
    case None
    obtain new2 where n2: "out (snd (ecs_reports env table h types dst rs w1)) = out w1 @ new2"
        and a2: "api_calls new2 = []"
      using Cons.IH by blast
    have "out (snd (ecs_reports env table h types dst (r # rs) w)) = out w @ (new @ new2)"
      using step None n1 n2 by simp
    moreover have "api_calls (new @ new2) = []"
      using a1 a2 by (simp add: api_calls_append)
    ultimately show ?thesis by blast
  qed
qed

lemma cef_report_fetches:
  assumes "\<not> type_filtered types r" and "files w (path_join dst (report_file r)) = None"
    and "mp (report_type r) \<noteq> None"
  shows "\<exists>rest. out (snd (cef_report env mp types dst dev r w))
                  = out w @ Retrieve (DLROOT @ report_id r) (path_join dst (report_file r)) # rest
               \<and> api_calls rest = []"
proof -
  let ?p = "path_join dst (report_file r)"
  obtain res w1 where dl: "logger_download env r ?p w = (res, w1)"
    by (cases "logger_download env r ?p w")
  obtain new where n1: "out w1 = out w @ Retrieve (DLROOT @ report_id r) ?p # new"
      and a1: "api_calls new = []"
    using logger_download_out [of env r ?p w] dl by auto
  show ?thesis
  proof (cases res)
    case (Inl e)
    then show ?thesis using assms dl n1 a1 by (auto simp: cef_report_def Let_def)
  next
    case (Inr ok)
    show ?thesis
    proof (cases ok)
      case False
      then show ?thesis using assms dl n1 a1 Inr by (auto simp: cef_report_def Let_def)
    next
      case True
      obtain st w2 where se: "cef_stream_events env mp r ?p dev w1 = (st, w2)"
        by (cases "cef_stream_events env mp r ?p dev w1")
      obtain new2 where n2: "out w2 = out w1 @ new2" and a2: "api_calls new2 = []"
        using cef_stream_events_out [of env mp r ?p dev w1] se by auto
      have "out (snd (cef_report env mp types dst dev r w)) = out w2"
        using assms dl Inr True se by (auto simp: cef_report_def Let_def split: option.splits)
      then have "out (snd (cef_report env mp types dst dev r w))
                   = out w @ Retrieve (DLROOT @ report_id r) ?p # (new @ new2)"
        using n1 n2 by simp
      moreover have "api_calls (new @ new2) = []"
        using a1 a2 by (simp add: api_calls_append)
      ultimately show ?thesis by blast
    qed
  qed
qed

lemma cef_report_unmapped:
  "mp (report_type r) = None \<Longrightarrow>
     cef_report env mp types dst dev r w
       = (None,
          if type_filtered types r \<or> files w (path_join dst (report_file r)) \<noteq> None then w
          else emit (Print (WarnNoMapping (report_type r) (report_file r))) w)"
  by (simp add: cef_report_def Let_def)

lemma cef_report_out:
  "\<exists>new. out (snd (cef_report env mp types dst dev r w)) = out w @ new \<and> api_calls new = []"
proof (cases "\<not> type_filtered types r \<and> files w (path_join dst (report_file r)) = None")
  case True
  show ?thesis
  proof (cases "mp (report_type r)")
    case None
    then show ?thesis using True
      by (simp add: cef_report_unmapped emit_def api_calls_def)
  next
    case (Some fmap)
    then obtain rest where
      "out (snd (cef_report env mp types dst dev r w))
         = out w @ Retrieve (DLROOT @ report_id r) (path_join dst (report_file r)) # rest"
      "api_calls rest = []"
      using True cef_report_fetches [of types r w dst mp env dev] by auto
    then have "out (snd (cef_report env mp types dst dev r w))
         = out w @ (Retrieve (DLROOT @ report_id r) (path_join dst (report_file r)) # rest)
       \<and> api_calls (Retrieve (DLROOT @ report_id r) (path_join dst (report_file r)) # rest) = []"
      by (simp add: api_calls_def)
    then show ?thesis by blast
  qed
next
  case False
  then have "cef_report env mp types dst dev r w = (None, w)"
    by (auto simp: cef_report_def Let_def)
  then show ?thesis by (simp add: api_calls_def)
qed

lemma cef_reports_out:
  "\<exists>new. out (snd (cef_reports env mp types dst dev reports w)) = out w @ new
         \<and> api_calls new = []"
proof (induction reports arbitrary: w)
  case Nil
  then show ?case by (simp add: api_calls_def)
next
  case (Cons r rs)
  obtain st w1 where step: "cef_report env mp types dst dev r w = (st, w1)"
    by (cases "cef_report env mp types dst dev r w")
  obtain new where n1: "out w1 = out w @ new" and a1: "api_calls new = []"
    using cef_report_out [of env mp types dst dev r w] step by auto
  show ?case
  proof (cases st)
    case (Some e)
    then show ?thesis using step n1 a1 by simp
  next
    case None
    obtain new2 where n2: "out (snd (cef_reports env mp types dst dev rs w1)) = out w1 @ new2"
        and a2: "api_calls new2 = []"
      using Cons.IH by blast
    have "out (snd (cef_reports env mp types dst dev (r # rs) w)) = out w @ (new @ new2)"
      using step None n1 n2 by simp
    moreover have "api_calls (new @ new2) = []"
      using a1 a2 by (simp add: api_calls_append)
    ultimately show ?thesis by blast
  qed
qed

lemma expire_out: "out (expire env dst w) = out w"
  by (simp add: expire_def)

lemma cef_input_calls:
  assumes "facility \<in> set facilities"
    and "\<not> mkdir_fails env (path_join (state_directory lg) (basename input_name))"
  shows "api_calls (out (snd (cef_input env lg input_name input_item facility w)))
           = api_calls (out w) @ [(''reports/list'', cef_date_str env)]"
proof -
  let ?rq = "\<lparr>req_date = cef_date_str env,
              req_reports = map_option (split_on is_comma) (input_item ''reports'')\<rparr>"
  let ?w1 = "emit (ApiCall ''reports/list'' ?rq) w"
  have w1: "api_calls (out ?w1) = api_calls (out w) @ [(''reports/list'', cef_date_str env)]"
    by (simp add: emit_def api_calls_def)
  have loop: "api_calls (out (snd (cef_reports env mp types dst dev reports ?w1)))
      = api_calls (out ?w1)" for mp types dst dev reports
    using cef_reports_out [of env mp types dst dev reports ?w1]
    by (auto simp: api_calls_append)
  show ?thesis
  proof (cases "api env ''reports/list'' ?rq")
    case (ApiReports reports)
    then show ?thesis
      using assms w1
        loop [of "mapping lg" "map_option (split_on is_comma) (input_item ''types'')"
          "path_join (state_directory lg) (basename input_name)"
          "case input_item ''device_event_class_id'' of Some d \<Rightarrow> d | None \<Rightarrow> ''100''" reports]
      by (auto simp: cef_input_def Let_def expire_out split: prod.splits option.splits)
  qed (use assms w1 in \<open>auto simp: cef_input_def Let_def expire_out\<close>)
qed

lemma cef_input_calls_any:
  "\<exists>n. api_calls (out (snd (cef_input env lg input_name input_item facility w)))
           = api_calls (out w) @ replicate n (''reports/list'', cef_date_str env)"
proof (cases "facility \<in> set facilities
    \<and> \<not> mkdir_fails env (path_join (state_directory lg) (basename input_name))")
  case True
  then have "api_calls (out (snd (cef_input env lg input_name input_item facility w)))
           = api_calls (out w) @ replicate 1 (''reports/list'', cef_date_str env)"
    using cef_input_calls [of facility env lg input_name input_item w] by simp
  then show ?thesis by blast
next
  case False
  then have "api_calls (out (snd (cef_input env lg input_name input_item facility w)))
           = api_calls (out w) @ replicate 0 (''reports/list'', cef_date_str env)"
    by (auto simp: cef_input_def Let_def)
  then show ?thesis by blast
qed

lemma cef_inputs_calls:
  "\<exists>n. api_calls (out (snd (cef_inputs env lg sections w)))
           = api_calls (out w) @ replicate n (''reports/list'', cef_date_str env)"
proof (induction sections arbitrary: w)
  case Nil
  have "api_calls (out (snd (cef_inputs env lg [] w)))
           = api_calls (out w) @ replicate 0 (''reports/list'', cef_date_str env)"
    by simp
  then show ?case by blast
next
  case (Cons s rest)
  obtain input_name input_item where s: "s = (input_name, input_item)" by (cases s)
  show ?case
  proof (cases "input_item ''facility''")
    case None
    then show ?thesis using Cons.IH [of w] s by simp
  next
    case (Some facility)
    obtain st w1 where step: "cef_input env lg input_name input_item facility w = (st, w1)"
      by (cases "cef_input env lg input_name input_item facility w")
    obtain n where n: "api_calls (out w1)
        = api_calls (out w) @ replicate n (''reports/list'', cef_date_str env)"
      using cef_input_calls_any [of env lg input_name input_item facility w] step by auto
    show ?thesis
    proof (cases st)
      case (Some e)
      then show ?thesis using s \<open>input_item ''facility'' = Some facility\<close> step n by auto
    next
      case None
      obtain k where k: "api_calls (out (snd (cef_inputs env lg rest w1)))
          = api_calls (out w1) @ replicate k (''reports/list'', cef_date_str env)"
        using Cons.IH by blast
      have "api_calls (out (snd (cef_inputs env lg (s # rest) w)))
          = api_calls (out w) @ replicate (n + k) (''reports/list'', cef_date_str env)"
        using s \<open>input_item ''facility'' = Some facility\<close> step None n k
        by (simp add: replicate_add)
      then show ?thesis by blast
    qed
  qed
qed

lemma ecs_input_calls:
  assumes "\<not> mkdir_fails env (path_join (state_directory lg) (basename input_name))"
  shows "api_calls (out (snd (ecs_input env lg h input_name input_item w)))
           = api_calls (out w) @ [(''reports/list'', ecs_date_str env)]"
proof -
  let ?rq = "\<lparr>req_date = ecs_date_str env,
              req_reports = map_option (split_on is_comma) (input_item ''reports'')\<rparr>"
  let ?w1 = "emit (ApiCall ''reports/list'' ?rq) w"
  have w1: "api_calls (out ?w1) = api_calls (out w) @ [(''reports/list'', ecs_date_str env)]"
    by (simp add: emit_def api_calls_def)
  have loop: "api_calls (out (snd (ecs_reports env table h types dst reports ?w1)))
      = api_calls (out ?w1)" for table types dst reports
    using ecs_reports_out [of env table h types dst reports ?w1]
    by (auto simp: api_calls_append)
  show ?thesis
  proof (cases "api env ''reports/list'' ?rq")
    case (ApiReports reports)
    then show ?thesis
      using assms w1
        loop [of "mapping lg" "map_option (split_on is_comma) (input_item ''types'')"
          "path_join (state_directory lg) (basename input_name)" reports]
      by (auto simp: ecs_input_def Let_def expire_out split: prod.splits option.splits)
  qed (use assms w1 in \<open>auto simp: ecs_input_def Let_def expire_out\<close>)
qed

lemma ecs_input_calls_any:
  "\<exists>n. api_calls (out (snd (ecs_input env lg h input_name input_item w)))
           = api_calls (out w) @ replicate n (''reports/list'', ecs_date_str env)"
proof (cases "\<not> mkdir_fails env (path_join (state_directory lg) (basename input_name))")
  case True
  then have "api_calls (out (snd (ecs_input env lg h input_name input_item w)))
           = api_calls (out w) @ replicate 1 (''reports/list'', ecs_date_str env)"
    using ecs_input_calls [of env lg input_name h input_item w] by simp
  then show ?thesis by blast
next
  case False
  then have "api_calls (out (snd (ecs_input env lg h input_name input_item w)))
           = api_calls (out w) @ replicate 0 (''reports/list'', ecs_date_str env)"
    by (auto simp: ecs_input_def Let_def)
  then show ?thesis by blast
qed

lemma ecs_inputs_calls:
  "\<exists>n. api_calls (out (snd (ecs_inputs env lg h sections w)))
           = api_calls (out w) @ replicate n (''reports/list'', ecs_date_str env)"
proof (induction sections arbitrary: w h)
  case Nil
  have "api_calls (out (snd (ecs_inputs env lg h [] w)))
           = api_calls (out w) @ replicate 0 (''reports/list'', ecs_date_str env)"
    by simp
  then show ?case by blast
next
  case (Cons s rest)
  obtain input_name input_item where s: "s = (input_name, input_item)" by (cases s)
  show ?case
  proof (cases "input_item ''log''")
    case None
    then show ?thesis using Cons.IH [of h w] s by simp
  next
    case (Some logfile)
    obtain st w1 where step: "ecs_input env lg (h @ [logfile]) input_name input_item w = (st, w1)"
      by (cases "ecs_input env lg (h @ [logfile]) input_name input_item w")
    obtain n where n: "api_calls (out w1)
        = api_calls (out w) @ replicate n (''reports/list'', ecs_date_str env)"
      using ecs_input_calls_any [of env lg "h @ [logfile]" input_name input_item w] step by auto
    show ?thesis
    proof (cases st)
      case (Some e)
      then show ?thesis using s \<open>input_item ''log'' = Some logfile\<close> step n by auto
    next
      case None
      obtain k where k: "api_calls (out (snd (ecs_inputs env lg (h @ [logfile]) rest w1)))
          = api_calls (out w1) @ replicate k (''reports/list'', ecs_date_str env)"
        using Cons.IH by blast
      have "api_calls (out (snd (ecs_inputs env lg h (s # rest) w)))
          = api_calls (out w) @ replicate (n + k) (''reports/list'', ecs_date_str env)"
        using s \<open>input_item ''log'' = Some logfile\<close> step None n k
        by (simp add: replicate_add)
      then show ?thesis by blast
    qed
  qed
qed

section \<open>The date range of the listing request\<close>

text \<open>
  C9, as the code has it. Every API call of a run of the CEF logger is \<^verbatim>\<open>reports/list\<close>
  with the one range string from two days before the local today to one day after it,
  and a section with a known facility whose directory can be made makes that call. Every
  API call of a run of the ECS logger is \<^verbatim>\<open>reports/list\<close> with the one range string from
  two days before the UTC today to the UTC today itself.
\<close>

theorem listing_date_range:
  "(\<exists>n. api_calls (out (snd (cef_run env lg w)))
          = api_calls (out w)
            @ replicate n (''reports/list'',
                isoformat env (local_today env - 2) @ '':'' @ isoformat env (local_today env + 1)))
   \<and> (facility \<in> set facilities
        \<and> \<not> mkdir_fails env (path_join (state_directory lg) (basename input_name)) \<longrightarrow>
      api_calls (out (snd (cef_input env lg input_name input_item facility w)))
        = api_calls (out w)
          @ [(''reports/list'',
              isoformat env (local_today env - 2) @ '':'' @ isoformat env (local_today env + 1))])
   \<and> (\<exists>n. api_calls (out (snd (ecs_run env lg2 w)))
          = api_calls (out w)
            @ replicate n (''reports/list'',
                isoformat env (utc_today env - 2) @ '':'' @ isoformat env (utc_today env)))
   \<and> (\<not> mkdir_fails env (path_join (state_directory lg2) (basename input_name)) \<longrightarrow>
      api_calls (out (snd (ecs_input env lg2 h input_name input_item w)))
        = api_calls (out w)
          @ [(''reports/list'',
              isoformat env (utc_today env - 2) @ '':'' @ isoformat env (utc_today env))])"
proof -
  have a: "\<exists>n. api_calls (out (snd (cef_run env lg w)))
          = api_calls (out w) @ replicate n (''reports/list'', cef_date_str env)"
  proof (cases "run_mode lg = ''run''")
    case True
    then show ?thesis using cef_inputs_calls [of env lg "config lg" w] by (simp add: cef_run_def)
  next
    case False
    then have "api_calls (out (snd (cef_run env lg w)))
          = api_calls (out w) @ replicate 0 (''reports/list'', cef_date_str env)"
      by (simp add: cef_run_def)
    then show ?thesis by blast
  qed
  have b: "\<exists>n. api_calls (out (snd (ecs_run env lg2 w)))
          = api_calls (out w) @ replicate n (''reports/list'', ecs_date_str env)"
  proof (cases "run_mode lg2 = ''run''")
    case True
    then show ?thesis using ecs_inputs_calls [of env lg2 "[]" "config lg2" w] by (simp add: ecs_run_def)
  next
    case False
    then have "api_calls (out (snd (ecs_run env lg2 w)))
          = api_calls (out w) @ replicate 0 (''reports/list'', ecs_date_str env)"
      by (simp add: ecs_run_def)
    then show ?thesis by blast
  qed
  show ?thesis
    using a b cef_input_calls [of facility env lg input_name input_item w]
      ecs_input_calls [of env lg2 input_name h input_item w]
    by (simp add: cef_date_str_def ecs_date_str_def)
qed

theorem listing_date_range_witness:
  "api_calls (out (snd (cef_input sample_env sample_cef_logger ''input''
       [''facility'' \<mapsto> ''user''] ''user'' empty_world)))
     = [(''reports/list'', ''2024-01-08:2024-01-11'')]
   \<and> api_calls (out (snd (ecs_input sample_env sample_ecs_logger [''/var/log/ecs.json'']
       ''input'' [''log'' \<mapsto> ''/var/log/ecs.json''] empty_world)))
     = [(''reports/list'', ''2024-01-08:2024-01-10'')]"
  using listing_date_range [where env = sample_env and lg = sample_cef_logger
      and ?lg2.0 = sample_ecs_logger and facility = "''user''" and input_name = "''input''"
      and input_item = "[''facility'' \<mapsto> ''user'']" and w = empty_world
      and h = "[''/var/log/ecs.json'']"]
    listing_date_range [where env = sample_env and lg = sample_cef_logger
      and ?lg2.0 = sample_ecs_logger and facility = "''user''" and input_name = "''input''"
      and input_item = "[''log'' \<mapsto> ''/var/log/ecs.json'']" and w = empty_world
      and h = "[''/var/log/ecs.json'']"]
  by (simp add: sample_env_def sample_isoformat_def facilities_def empty_world_def api_calls_def)

text \<open>
  C9 as the spec states it fails in the ECS logger: on 2024-01-10 it asks for
  \<open>2024-01-08:2024-01-10\<close>, not for a range that ends on 2024-01-11.
\<close>

theorem ecs_range_ends_today_counterexample:
  "api_calls (out (snd (ecs_run sample_env sample_ecs_logger empty_world)))
     = [(''reports/list'', ''2024-01-08:2024-01-10'')]
   \<and> isoformat sample_env (utc_today sample_env + 1) = ''2024-01-11''
   \<and> api_calls (out (snd (ecs_run sample_env sample_ecs_logger empty_world)))
     \<noteq> [(''reports/list'', ''2024-01-08:2024-01-11'')]"
  by (simp add: ecs_run_def ecs_input_def ecs_date_str_def sample_env_def sample_ecs_logger_def
      sample_isoformat_def empty_world_def api_calls_def emit_def expire_def Let_def)

section \<open>The zero-byte placeholder of the loggers\<close>

text \<open>
  C10. In both loggers a fetch that returns zero bytes makes \<^verbatim>\<open>_download\<close> return False
  with the empty file at the final report path; the step of \<^verbatim>\<open>run\<close> then transforms
  nothing and leaves the file. While a file is at that path, every loop over a listing,
  in this run or a later one and whatever the network then gives, treats the listed
  reports of that path as if they were not listed: they are neither fetched nor
  transformed. The sweep leaves the file until it is older than \<open>MAX_AGE\<close>, and unlinks
  it then.
\<close>

theorem zero_byte_placeholder:
  "(files w p = None \<and> net env (DLROOT @ report_id r) = FetchDone [] \<longrightarrow>
      logger_download env r p w
        = (Inr False,
           emit (Retrieve (DLROOT @ report_id r) p)
             (w\<lparr>files := (files w)(p \<mapsto> \<lparr>content = [], mtime = clock env\<rparr>)\<rparr>)))
   \<and> (files w (path_join dst (report_file r)) = None
        \<and> net env (DLROOT @ report_id r) = FetchDone []
        \<and> \<not> type_filtered types r \<and> mp (report_type r) \<noteq> None \<longrightarrow>
      cef_report env mp types dst dev r w
        = (None,
           emit (Retrieve (DLROOT @ report_id r) (path_join dst (report_file r)))
             (w\<lparr>files := (files w)(path_join dst (report_file r)
                             \<mapsto> \<lparr>content = [], mtime = clock env\<rparr>)\<rparr>)))
   \<and> (files w (path_join dst (report_file r)) = None
        \<and> net env (DLROOT @ report_id r) = FetchDone []
        \<and> \<not> type_filtered types r \<longrightarrow>
      ecs_report env table h types dst r w
        = (None,
           emit (Retrieve (DLROOT @ report_id r) (path_join dst (report_file r)))
             (w\<lparr>files := (files w)(path_join dst (report_file r)
                             \<mapsto> \<lparr>content = [], mtime = clock env\<rparr>)\<rparr>)))
   \<and> (files w p \<noteq> None \<longrightarrow>
      cef_reports env2 mp types dst dev reports w
        = cef_reports env2 mp types dst dev
            (filter (\<lambda>r. path_join dst (report_file r) \<noteq> p) reports) w
      \<and> ecs_reports env2 table h types dst reports w
        = ecs_reports env2 table h types dst
            (filter (\<lambda>r. path_join dst (report_file r) \<noteq> p) reports) w)
   \<and> (files w p = Some f \<longrightarrow>
      files (expire env2 dst2 w) p
        = (if in_directory dst2 p \<and> clock env2 - mtime f > MAX_AGE then None else Some f))"
proof -
  have dl: "files w q = None \<and> net env (DLROOT @ report_id r) = FetchDone [] \<longrightarrow>
      logger_download env r q w
        = (Inr False,
           emit (Retrieve (DLROOT @ report_id r) q)
             (w\<lparr>files := (files w)(q \<mapsto> \<lparr>content = [], mtime = clock env\<rparr>)\<rparr>))" for q
    by (simp add: logger_download_def urlretrieve_def getsize_def Let_def)
  have cef: "files w (path_join dst (report_file r)) = None
        \<and> net env (DLROOT @ report_id r) = FetchDone []
        \<and> \<not> type_filtered types r \<and> mp (report_type r) \<noteq> None \<longrightarrow>
      cef_report env mp types dst dev r w
        = (None,
           emit (Retrieve (DLROOT @ report_id r) (path_join dst (report_file r)))
             (w\<lparr>files := (files w)(path_join dst (report_file r)
                             \<mapsto> \<lparr>content = [], mtime = clock env\<rparr>)\<rparr>))"
    using dl [of "path_join dst (report_file r)"] by (auto simp: cef_report_def Let_def)
  have ecs: "files w (path_join dst (report_file r)) = None
        \<and> net env (DLROOT @ report_id r) = FetchDone []
        \<and> \<not> type_filtered types r \<longrightarrow>
      ecs_report env table h types dst r w
        = (None,
           emit (Retrieve (DLROOT @ report_id r) (path_join dst (report_file r)))
             (w\<lparr>files := (files w)(path_join dst (report_file r)
                             \<mapsto> \<lparr>content = [], mtime = clock env\<rparr>)\<rparr>))"
    using dl [of "path_join dst (report_file r)"] by (auto simp: ecs_report_def Let_def)
  have sweep: "files w p = Some f \<longrightarrow>
      files (expire env2 dst2 w) p
        = (if in_directory dst2 p \<and> clock env2 - mtime f > MAX_AGE then None else Some f)"
    by (simp add: expire_def)
  show ?thesis
    using dl [of p] cef ecs sweep
      cef_reports_skip_present [of w p env2 mp types dst dev reports]
      ecs_reports_skip_present [of w p env2 table h types dst reports]
    by blast
qed

theorem zero_byte_placeholder_witness:
  "logger_download (sample_env\<lparr>net := (\<lambda>url. FetchDone [])\<rparr>) sample_report ''/state/in/f.csv''
       empty_world
     = (Inr False,
        \<lparr>files = [''/state/in/f.csv'' \<mapsto> \<lparr>content = [], mtime = 1704880000\<rparr>],
         out = [Retrieve ''https://dl.shadowserver.org/abc123'' ''/state/in/f.csv'']\<rparr>)
   \<and> ecs_reports (sample_env\<lparr>net := (\<lambda>url. FetchDone ''ip''), clock := 1704883600\<rparr>)
        Map.empty [] None ''/state/in'' [sample_report\<lparr>report_file := ''f.csv''\<rparr>]
        \<lparr>files = [''/state/in/f.csv'' \<mapsto> \<lparr>content = [], mtime = 1704880000\<rparr>], out = []\<rparr>
     = (None,
        \<lparr>files = [''/state/in/f.csv'' \<mapsto> \<lparr>content = [], mtime = 1704880000\<rparr>], out = []\<rparr>)
   \<and> files (expire (sample_env\<lparr>clock := 1704883600\<rparr>) ''/state/in''
        \<lparr>files = [''/state/in/f.csv'' \<mapsto> \<lparr>content = [], mtime = 1704880000\<rparr>], out = []\<rparr>)
        ''/state/in/f.csv'' = Some \<lparr>content = [], mtime = 1704880000\<rparr>
   \<and> files (expire (sample_env\<lparr>clock := 1705490000\<rparr>) ''/state/in''
        \<lparr>files = [''/state/in/f.csv'' \<mapsto> \<lparr>content = [], mtime = 1704880000\<rparr>], out = []\<rparr>)
        ''/state/in/f.csv'' = None"
proof -
  let ?w1 = "\<lparr>files = [''/state/in/f.csv'' \<mapsto> \<lparr>content = [], mtime = 1704880000\<rparr>], out = []\<rparr>"
  have dir: "in_directory ''/state/in'' ''/state/in/f.csv''"
    by (simp add: in_directory_def path_join_def)
  have a: "logger_download (sample_env\<lparr>net := (\<lambda>url. FetchDone [])\<rparr>) sample_report
       ''/state/in/f.csv'' empty_world
     = (Inr False,
        \<lparr>files = [''/state/in/f.csv'' \<mapsto> \<lparr>content = [], mtime = 1704880000\<rparr>],
         out = [Retrieve ''https://dl.shadowserver.org/abc123'' ''/state/in/f.csv'']\<rparr>)"
    using zero_byte_placeholder [where w = empty_world and p = "''/state/in/f.csv''"
        and env = "sample_env\<lparr>net := (\<lambda>url. FetchDone [])\<rparr>" and r = sample_report]
    by (simp add: empty_world_def sample_env_def sample_report_def DLROOT_def emit_def)
  have b: "ecs_reports (sample_env\<lparr>net := (\<lambda>url. FetchDone ''ip''), clock := 1704883600\<rparr>)
        Map.empty [] None ''/state/in'' [sample_report\<lparr>report_file := ''f.csv''\<rparr>] ?w1
     = (None, ?w1)"
    using zero_byte_placeholder [where w = ?w1 and p = "''/state/in/f.csv''"
        and ?env2.0 = "sample_env\<lparr>net := (\<lambda>url. FetchDone ''ip''), clock := 1704883600\<rparr>"
        and table = Map.empty and h = "[]" and types = None and dst = "''/state/in''"
        and reports = "[sample_report\<lparr>report_file := ''f.csv''\<rparr>]"]
    by (simp add: path_join_def)
  have c: "files (expire (sample_env\<lparr>clock := 1704883600\<rparr>) ''/state/in'' ?w1)
        ''/state/in/f.csv'' = Some \<lparr>content = [], mtime = 1704880000\<rparr>"
    using zero_byte_placeholder [where w = ?w1 and p = "''/state/in/f.csv''"
        and ?env2.0 = "sample_env\<lparr>clock := 1704883600\<rparr>" and ?dst2.0 = "''/state/in''"
        and f = "\<lparr>content = [], mtime = 1704880000\<rparr>"]
    by (simp add: MAX_AGE_def)
  have d: "files (expire (sample_env\<lparr>clock := 1705490000\<rparr>) ''/state/in'' ?w1)
        ''/state/in/f.csv'' = None"
    using zero_byte_placeholder [where w = ?w1 and p = "''/state/in/f.csv''"
        and ?env2.0 = "sample_env\<lparr>clock := 1705490000\<rparr>" and ?dst2.0 = "''/state/in''"
        and f = "\<lparr>content = [], mtime = 1704880000\<rparr>"] dir
    by (simp add: MAX_AGE_def)
  show ?thesis using a b c d by simp
qed

section \<open>Reports of a type without a mapping entry\<close>

lemma update_absent:
  "k \<notin> fst ` set al \<Longrightarrow> AList.update k v al = al @ [(k, v)]"
  by (induction al) auto

lemma match_directive_extra: "match_directive (''extra.'' @ field) = None"
  by (simp add: match_directive_def)

lemma ecs_field_unmapped:
  assumes "table field = None" and "table (rtype @ ''.'' @ field) = None"
  shows "ecs_field table rtype event (field, v)
           = Inr (if v = [] then event else AList.update (''extra.'' @ field) (Str v) event)"
proof -
  have "mapped_target table rtype field = ''extra.'' @ field"
    using assms by (simp add: mapped_target_eq)
  then show ?thesis
    using match_directive_extra [of field] match_directive_None_args [of "''extra.'' @ field"]
    by (simp add: ecs_field_def Let_def)
qed

lemma ecs_fields_unmapped:
  assumes "\<forall>fv\<in>set r. table (fst fv) = None \<and> table (rtype @ ''.'' @ fst fv) = None"
    and "distinct (map fst r)"
    and "\<forall>fv\<in>set r. (''extra.'' @ fst fv) \<notin> fst ` set event"
  shows "ecs_fields table rtype event r
           = Inr (event @ map (\<lambda>fv. (''extra.'' @ fst fv, Str (snd fv)))
                              (filter (\<lambda>fv. snd fv \<noteq> []) r))"
  using assms
proof (induction r arbitrary: event)
  case Nil
  then show ?case by simp
next
  case (Cons fv rest)
  obtain field v where fv: "fv = (field, v)" by (cases fv)
  have step: "ecs_field table rtype event fv
           = Inr (if v = [] then event else event @ [(''extra.'' @ field, Str v)])"
    using Cons.prems fv ecs_field_unmapped [of table field rtype event v]
    by (simp add: update_absent)
  show ?case
  proof (cases "v = []")
    case True
    then show ?thesis using step fv Cons by simp
  next
    case False
    have "\<forall>x\<in>set rest. (''extra.'' @ fst x) \<notin> fst ` set (event @ [(''extra.'' @ field, Str v)])"
      using Cons.prems fv by (auto simp: image_iff)
    then have "ecs_fields table rtype (event @ [(''extra.'' @ field, Str v)]) rest
        = Inr ((event @ [(''extra.'' @ field, Str v)])
                @ map (\<lambda>fv. (''extra.'' @ fst fv, Str (snd fv)))
                      (filter (\<lambda>fv. snd fv \<noteq> []) rest))"
      using Cons.IH [of "event @ [(''extra.'' @ field, Str v)]"] Cons.prems by simp
    then show ?thesis using step fv False by simp
  qed
qed

lemma ecs_row_unmapped:
  assumes "\<forall>fv\<in>set r. table (fst fv) = None \<and> table (rtype @ ''.'' @ fst fv) = None"
    and "distinct (map fst r)"
  shows "ecs_row table rtype r = Inr (map (\<lambda>fv. (''extra.'' @ fst fv, Str (snd fv))) (filter (\<lambda>fv. snd fv \<noteq> []) r)
                   @ [(''data_stream.dataset'', Str rtype)])"
proof -
  have "ecs_fields table rtype [] r
           = Inr ([] @ map (\<lambda>fv. (''extra.'' @ fst fv, Str (snd fv)))
                         (filter (\<lambda>fv. snd fv \<noteq> []) r))"
    using assms by (intro ecs_fields_unmapped) simp_all
  moreover have "''data_stream.dataset''
      \<notin> fst ` set (map (\<lambda>fv. (''extra.'' @ fst fv, Str (snd fv))) (filter (\<lambda>fv. snd fv \<noteq> []) r))"
    by (auto simp: image_iff)
  ultimately show ?thesis
    by (simp add: ecs_row_def update_absent)
qed

lemma ecs_rows_unmapped:
  assumes "\<forall>r\<in>set rows. distinct (map fst r)
             \<and> (\<forall>fv\<in>set r. table (fst fv) = None \<and> table (rtype @ ''.'' @ fst fv) = None)"
  shows "ecs_rows table h rtype rows w
           = (None, w\<lparr>out := out w @ map (\<lambda>r. LogInfo h (map (\<lambda>fv. (''extra.'' @ fst fv, Str (snd fv))) (filter (\<lambda>fv. snd fv \<noteq> []) r)
                   @ [(''data_stream.dataset'', Str rtype)])) rows\<rparr>)"
  using assms
proof (induction rows arbitrary: w)
  case Nil
  then show ?case by simp
next
  case (Cons r rs)
  have "ecs_row table rtype r = Inr (map (\<lambda>fv. (''extra.'' @ fst fv, Str (snd fv))) (filter (\<lambda>fv. snd fv \<noteq> []) r)
                   @ [(''data_stream.dataset'', Str rtype)])"
    using Cons.prems by (intro ecs_row_unmapped) simp_all
  then show ?case using Cons by (simp add: emit_def)
qed

lemma ecs_report_unmapped:
  assumes "\<not> type_filtered types r" and "files w (path_join dst (report_file r)) = None"
    and "net env (DLROOT @ report_id r) = FetchDone b" and "b \<noteq> []"
    and "csv_reader env b = (rows, None)"
    and "\<forall>row\<in>set rows. distinct (map fst row)
           \<and> (\<forall>fv\<in>set row. table (fst fv) = None \<and> table (report_type r @ ''.'' @ fst fv) = None)"
  shows "ecs_report env table h types dst r w
     = (None,
        w\<lparr>files := (files w)(path_join dst (report_file r) \<mapsto> \<lparr>content = [], mtime = clock env\<rparr>),
          out := out w
            @ Retrieve (DLROOT @ report_id r) (path_join dst (report_file r))
            # map (\<lambda>row. LogInfo h
                    (map (\<lambda>fv. (''extra.'' @ fst fv, Str (snd fv))) (filter (\<lambda>fv. snd fv \<noteq> []) row)
                       @ [(''data_stream.dataset'', Str (report_type r))])) rows
            @ [Print (InfoProcessed (length rows) (report_file r))]\<rparr>)"
proof -
  let ?p = "path_join dst (report_file r)"
  let ?w1 = "emit (Retrieve (DLROOT @ report_id r) ?p)
               (w\<lparr>files := (files w)(?p \<mapsto> \<lparr>content = b, mtime = clock env\<rparr>)\<rparr>)"
  have dl: "logger_download env r ?p w = (Inr True, ?w1)"
    using assms(3,4) by (simp add: logger_download_def urlretrieve_def getsize_def Let_def)
  have rows: "ecs_rows table h (report_type r) rows ?w1
     = (None, ?w1\<lparr>out := out ?w1 @ map (\<lambda>row. LogInfo h
                    (map (\<lambda>fv. (''extra.'' @ fst fv, Str (snd fv))) (filter (\<lambda>fv. snd fv \<noteq> []) row)
                       @ [(''data_stream.dataset'', Str (report_type r))])) rows\<rparr>)"
    using assms(6) by (rule ecs_rows_unmapped)
  have "files ?w1 ?p = Some \<lparr>content = b, mtime = clock env\<rparr>" by (simp add: emit_def)
  then have se: "ecs_stream_events env table h r ?p ?w1
     = (None, emit (Print (InfoProcessed (length rows) (report_file r)))
          (?w1\<lparr>out := out ?w1 @ map (\<lambda>row. LogInfo h
                    (map (\<lambda>fv. (''extra.'' @ fst fv, Str (snd fv))) (filter (\<lambda>fv. snd fv \<noteq> []) row)
                       @ [(''data_stream.dataset'', Str (report_type r))])) rows\<rparr>))"
    using assms(5) rows by (simp add: ecs_stream_events_def)
  show ?thesis
    using assms(1,2) dl se
    by (simp add: ecs_report_def Let_def emit_def truncate_file_def)
qed

text \<open>
  C4, as the code has it. In the CEF logger a report whose type is no key of the mapping
  document is skipped: its step fetches nothing and transforms nothing, and prints the
  warning when the report passed the type filter and its path is not there yet. The ECS
  logger has no such test: whatever its table holds, a report that passes the type filter
  and whose path is not there is fetched; and when the fetch gives a non-empty file whose
  rows have no table entry for any of their fields, bare or qualified by the type, every
  row is logged with each non-empty cell under \<open>extra.field\<close> and the dataset tag, and
  the file is truncated.
\<close>

theorem unmapped_type_skipped:
  "(mp (report_type r) = None \<longrightarrow>
      cef_report env mp types dst dev r w
        = (None,
           if type_filtered types r \<or> files w (path_join dst (report_file r)) \<noteq> None then w
           else emit (Print (WarnNoMapping (report_type r) (report_file r))) w))
   \<and> (\<not> type_filtered types r \<and> files w (path_join dst (report_file r)) = None \<longrightarrow>
      (\<exists>rest. out (snd (ecs_report env table h types dst r w))
                 = out w @ Retrieve (DLROOT @ report_id r) (path_join dst (report_file r)) # rest))
   \<and> (\<not> type_filtered types r \<and> files w (path_join dst (report_file r)) = None
        \<and> net env (DLROOT @ report_id r) = FetchDone b \<and> b \<noteq> []
        \<and> csv_reader env b = (rows, None)
        \<and> (\<forall>row\<in>set rows. distinct (map fst row)
              \<and> (\<forall>fv\<in>set row. table (fst fv) = None
                                \<and> table (report_type r @ ''.'' @ fst fv) = None)) \<longrightarrow>
      ecs_report env table h types dst r w
        = (None,
           w\<lparr>files := (files w)(path_join dst (report_file r)
                          \<mapsto> \<lparr>content = [], mtime = clock env\<rparr>),
             out := out w
               @ Retrieve (DLROOT @ report_id r) (path_join dst (report_file r))
               # map (\<lambda>row. LogInfo h
                       (map (\<lambda>fv. (''extra.'' @ fst fv, Str (snd fv)))
                            (filter (\<lambda>fv. snd fv \<noteq> []) row)
                          @ [(''data_stream.dataset'', Str (report_type r))])) rows
               @ [Print (InfoProcessed (length rows) (report_file r))]\<rparr>))"
  using cef_report_unmapped [of mp r env types dst dev w]
    ecs_report_fetches [of types r w dst env table h]
    ecs_report_unmapped [of types r w dst env b rows table h]
  by blast

theorem unmapped_type_skipped_witness:
  "cef_report (sample_env\<lparr>net := (\<lambda>url. FetchDone sample_csv), csv_reader := sample_csv_reader\<rparr>)
       Map.empty None ''/state/input'' ''100'' sample_report empty_world
     = (None, emit (Print (WarnNoMapping ''scan_http'' ''2024-01-09-scan_http.csv'')) empty_world)
   \<and> ecs_report (sample_env\<lparr>net := (\<lambda>url. FetchDone sample_csv), csv_reader := sample_csv_reader\<rparr>)
       [''timestamp'' \<mapsto> ''&timestamp''] [''/var/log/ecs.json''] None ''/state/input''
       sample_report empty_world
     = (None,
        \<lparr>files = [''/state/input/2024-01-09-scan_http.csv''
                    \<mapsto> \<lparr>content = [], mtime = 1704880000\<rparr>],
         out = [Retrieve ''https://dl.shadowserver.org/abc123''
                  ''/state/input/2024-01-09-scan_http.csv'',
                LogInfo [''/var/log/ecs.json'']
                  [(''extra.ip'', Str ''192.0.2.1''), (''data_stream.dataset'', Str ''scan_http'')],
                Print (InfoProcessed 1 ''2024-01-09-scan_http.csv'')]\<rparr>)"
proof -
  let ?E = "sample_env\<lparr>net := (\<lambda>url. FetchDone sample_csv), csv_reader := sample_csv_reader\<rparr>"
  have a: "cef_report ?E Map.empty None ''/state/input'' ''100'' sample_report empty_world
     = (None, emit (Print (WarnNoMapping ''scan_http'' ''2024-01-09-scan_http.csv'')) empty_world)"
    using unmapped_type_skipped [where mp = Map.empty and r = sample_report and env = ?E
        and types = None and dst = "''/state/input''" and dev = "''100''" and w = empty_world]
    by (simp add: type_filtered_def empty_world_def sample_report_def)
  have nf: "\<not> type_filtered None sample_report" by (simp add: type_filtered_def)
  have ab: "files empty_world (path_join ''/state/input'' (report_file sample_report)) = None"
    by (simp add: empty_world_def)
  have nt: "net ?E (DLROOT @ report_id sample_report) = FetchDone sample_csv" by simp
  have ne: "sample_csv \<noteq> []" by (simp add: sample_csv_def)
  have rd: "csv_reader ?E sample_csv = ([[(''ip'', ''192.0.2.1'')]], None)"
    by (simp add: sample_csv_reader_def)
  have um: "\<forall>row\<in>set [[(''ip'', ''192.0.2.1'')]]. distinct (map fst row)
              \<and> (\<forall>fv\<in>set row. [''timestamp'' \<mapsto> ''&timestamp''] (fst fv) = None
                    \<and> [''timestamp'' \<mapsto> ''&timestamp''] (report_type sample_report @ ''.'' @ fst fv) = None)"
    by (simp add: sample_report_def)
  have b: "ecs_report ?E [''timestamp'' \<mapsto> ''&timestamp''] [''/var/log/ecs.json''] None
       ''/state/input'' sample_report empty_world
     = (None,
        empty_world\<lparr>files := (files empty_world)(path_join ''/state/input'' (report_file sample_report)
                          \<mapsto> \<lparr>content = [], mtime = clock ?E\<rparr>),
             out := out empty_world
               @ Retrieve (DLROOT @ report_id sample_report)
                   (path_join ''/state/input'' (report_file sample_report))
               # map (\<lambda>row. LogInfo [''/var/log/ecs.json'']
                       (map (\<lambda>fv. (''extra.'' @ fst fv, Str (snd fv)))
                            (filter (\<lambda>fv. snd fv \<noteq> []) row)
                          @ [(''data_stream.dataset'', Str (report_type sample_report))]))
                   [[(''ip'', ''192.0.2.1'')]]
               @ [Print (InfoProcessed (length [[(''ip'', ''192.0.2.1'')]])
                    (report_file sample_report))]\<rparr>)"
    using unmapped_type_skipped [where r = sample_report and env = ?E
        and types = None and dst = "''/state/input''" and w = empty_world
        and table = "[''timestamp'' \<mapsto> ''&timestamp'']" and h = "[''/var/log/ecs.json'']"
        and b = sample_csv and rows = "[[(''ip'', ''192.0.2.1'')]]"]
      nf ab nt ne rd um
    by blast
  show ?thesis
    using a b
    by (simp add: empty_world_def sample_report_def sample_env_def path_join_def DLROOT_def)
qed

text \<open>
  C4 as the spec states it fails in the ECS logger: with an empty table the report is
  fetched and its row is logged, the field under \<open>extra.ip\<close>.
\<close>

theorem ecs_unmapped_type_counterexample:
  "ecs_report (sample_env\<lparr>net := (\<lambda>url. FetchDone sample_csv), csv_reader := sample_csv_reader\<rparr>)
       Map.empty [''/var/log/ecs.json''] None ''/state/input'' sample_report empty_world
     = (None,
        \<lparr>files = [''/state/input/2024-01-09-scan_http.csv''
                    \<mapsto> \<lparr>content = [], mtime = 1704880000\<rparr>],
         out = [Retrieve ''https://dl.shadowserver.org/abc123''
                  ''/state/input/2024-01-09-scan_http.csv'',
                LogInfo [''/var/log/ecs.json'']
                  [(''extra.ip'', Str ''192.0.2.1''), (''data_stream.dataset'', Str ''scan_http'')],
                Print (InfoProcessed 1 ''2024-01-09-scan_http.csv'')]\<rparr>)"
  by (simp add: ecs_report_def type_filtered_def logger_download_def urlretrieve_def getsize_def
      ecs_stream_events_def ecs_row_def ecs_field_def mapped_target_def match_directive_args_def
      match_directive_def emit_def sample_env_def sample_report_def empty_world_def path_join_def
      DLROOT_def truncate_file_def Let_def sample_csv_def sample_csv_reader_def)

section \<open>Running a sync twice\<close>




















































end
